theory Spec2Isabelle
  imports Complex_Main
begin

section \<open>Python values, errors and dictionaries\<close>

text \<open>
  The module \<^verbatim>\<open>SYNEX/SYNEX_Telescopes.py\<close> defines one class, \<^verbatim>\<open>Athena\<close>, with the
  methods \<^verbatim>\<open>__init__\<close>, \<^verbatim>\<open>ComputeTesselation\<close>, \<^verbatim>\<open>GetKuiper\<close> and
  \<^verbatim>\<open>ExistentialCrisis\<close>. Every exception the source can raise is a value of
  \<open>error\<close>; a fallible computation returns \<open>error + 'a\<close> with \<open>Inl\<close> for the
  exception.
\<close>

datatype error =
    KeyError string
  | NameError string
  | UnboundLocalError string
  | AttributeError string
  | ValueError string
  | IndexError
  | ZeroDivisionError
  | OSError string
  | UnpicklingError string
  | TypeError
  | NonFinite
  | NoReturn
  | ExternalError string

definition ebind :: "error + 'a \<Rightarrow> ('a \<Rightarrow> error + 'b) \<Rightarrow> error + 'b" where
  "ebind m f = (case m of Inl e \<Rightarrow> Inl e | Inr x \<Rightarrow> f x)"

text \<open>
  Values stored in the two gwemopt dictionaries. Python floats are modelled as exact
  reals; \<open>VArr\<close> is a one-dimensional numeric array (the observation-duration array
  \<^verbatim>\<open>Tobs\<close>), \<open>VTable\<close> a two-dimensional one (the tesselation); \<open>VObj\<close> stands
  for any other object, compared by identity. \<open>NoReturn\<close> is not an exception: it
  marks a run whose versioning loop never ends. A raised exception ends the model's
  run; the state it leaves behind is tracked only where a claim needs it.
\<close>

datatype val =
    VNone
  | VBool bool
  | VNum real
  | VStr string
  | VArr "real list"
  | VTable "real list list"
  | VObj nat

type_synonym dict = "string \<rightharpoonup> val"

type_synonym kwargs = "(string \<times> val) list"

definition getitem :: "dict \<Rightarrow> string \<Rightarrow> error + val" where
  "getitem d k = (case d k of None \<Rightarrow> Inl (KeyError k) | Some v \<Rightarrow> Inr v)"

definition kw_in :: "string \<Rightarrow> kwargs \<Rightarrow> bool" where
  "kw_in k kw = (map_of kw k \<noteq> None)"

text \<open>
  Python's \<^verbatim>\<open>==\<close> on the modelled values: a \<^verbatim>\<open>bool\<close> is the number 0 or 1, everything
  else compares structurally. \<^verbatim>\<open>np.array_equal(a, b)\<close> is true when the shapes agree and
  all elements are equal, which on these values is the same relation.
\<close>

fun py_eq :: "val \<Rightarrow> val \<Rightarrow> bool" where
  "py_eq (VBool b) (VNum x) = (x = (if b then 1 else 0))"
| "py_eq (VNum x) (VBool b) = (x = (if b then 1 else 0))"
| "py_eq a b = (a = b)"

definition py_ne :: "val \<Rightarrow> val \<Rightarrow> bool" where
  "py_ne a b = (\<not> py_eq a b)"

definition array_equal :: "val \<Rightarrow> val \<Rightarrow> bool" where
  "array_equal a b = py_eq a b"

text \<open>Truth value of an object in a condition (\<^verbatim>\<open>if x:\<close>, \<^verbatim>\<open>if not x:\<close>).\<close>

fun truthy :: "val \<Rightarrow> bool" where
  "truthy VNone = False"
| "truthy (VBool b) = b"
| "truthy (VNum x) = (x \<noteq> 0)"
| "truthy (VStr s) = (s \<noteq> [])"
| "truthy (VArr xs) = (xs \<noteq> [])"
| "truthy (VTable xs) = (xs \<noteq> [])"
| "truthy (VObj n) = True"

section \<open>String operations\<close>

text \<open>
  \<^verbatim>\<open>s.split(sep)\<close> for a non-empty separator: the pieces between the non-overlapping
  occurrences of \<open>sep\<close>, found from the left; the result is never empty.
  \<^verbatim>\<open>sep.join(xs)\<close> concatenates with the separator in between.
\<close>

function py_split :: "string \<Rightarrow> string \<Rightarrow> string list" where
  "py_split sep [] = [[]]"
| "py_split sep (c # cs) =
     (if sep \<noteq> [] \<and> take (length sep) (c # cs) = sep
      then [] # py_split sep (drop (length sep) (c # cs))
      else (case py_split sep cs of
              [] \<Rightarrow> [[c]]
            | p # ps \<Rightarrow> (c # p) # ps))"
  by pat_completeness auto
termination
  by (relation "measure (\<lambda>(sep, s). length s)") auto

fun py_join :: "string \<Rightarrow> string list \<Rightarrow> string" where
  "py_join sep [] = []"
| "py_join sep [x] = x"
| "py_join sep (x # y # ys) = x @ sep @ py_join sep (y # ys)"

text \<open>\<^verbatim>\<open>sub in s\<close> on strings.\<close>

fun py_contains :: "string \<Rightarrow> string \<Rightarrow> bool" where
  "py_contains sub [] = (sub = [])"
| "py_contains sub (c # cs) = (take (length sub) (c # cs) = sub \<or> py_contains sub cs)"

text \<open>
  \<^verbatim>\<open>str(n)\<close> for an integer, and \<^verbatim>\<open>int(s)\<close> for an ASCII string: surrounding
  white space is stripped, one sign is allowed, the rest must be a non-empty run of
  decimal digits. (\<^verbatim>\<open>int\<close> also accepts single underscores between digits; the
  strings parsed in this module are pieces of a split at \<^verbatim>\<open>_\<close> and contain none.)
  \<open>None\<close> stands for the \<^verbatim>\<open>ValueError\<close>.
\<close>

definition digit_char :: "nat \<Rightarrow> char" where
  "digit_char n = ''0123456789'' ! (n mod 10)"

fun str_nat :: "nat \<Rightarrow> string" where
  "str_nat n = (if n < 10 then [digit_char n] else str_nat (n div 10) @ [digit_char (n mod 10)])"

declare str_nat.simps [simp del]

definition str_int :: "int \<Rightarrow> string" where
  "str_int i = (if i < 0 then CHR ''-'' # str_nat (nat (- i)) else str_nat (nat i))"

definition py_isspace :: "char \<Rightarrow> bool" where
  "py_isspace c = (c \<in> set [CHR '' '', CHR 0x09, CHR 0x0A, CHR 0x0B, CHR 0x0C, CHR 0x0D,
                            CHR 0x1C, CHR 0x1D, CHR 0x1E, CHR 0x1F])"

definition py_strip :: "string \<Rightarrow> string" where
  "py_strip s = rev (dropWhile py_isspace (rev (dropWhile py_isspace s)))"

definition is_digit :: "char \<Rightarrow> bool" where
  "is_digit c = (c \<in> set ''0123456789'')"

definition digit_val :: "char \<Rightarrow> nat" where
  "digit_val c = length (takeWhile (\<lambda>d. d \<noteq> c) ''0123456789'')"

definition nat_of_digits :: "string \<Rightarrow> nat" where
  "nat_of_digits ds = foldl (\<lambda>a c. 10 * a + digit_val c) 0 ds"

definition py_int :: "string \<Rightarrow> int option" where
  "py_int s =
     (case py_strip s of
        [] \<Rightarrow> None
      | c # cs \<Rightarrow>
          if c = CHR ''-'' then
            (if cs \<noteq> [] \<and> list_all is_digit cs then Some (- int (nat_of_digits cs)) else None)
          else if c = CHR ''+'' then
            (if cs \<noteq> [] \<and> list_all is_digit cs then Some (int (nat_of_digits cs)) else None)
          else if list_all is_digit (c # cs) then Some (int (nat_of_digits (c # cs)))
          else None)"

section \<open>The file system\<close>

text \<open>
  Only regular files matter to the module: a path either names a file or it does not
  (\<^verbatim>\<open>os.path.isfile\<close>). A pickled instrument is kept with its contents (the record
  \<open>snapshot\<close> below); every other file is opaque.
\<close>

record coverage =
  source_JsonFile :: "string option"
  source_H5File :: "string option"
  source_save_file :: "string option"
  coverage_rest :: val

record snapshot =
  snap_go_params :: dict
  snap_config_struct :: dict
  snap_source_coverage :: "coverage option option"
  snap_tile_struct :: "val option option"
  snap_MutatedFromTelescopeFile :: "string option option"

text \<open>
  The pickled tile dictionary read by \<^verbatim>\<open>GetKuiper\<close>. Its keys are the seven names of
  \<^verbatim>\<open>Extra_keys\<close> and, for the \<^verbatim>\<open>MaxProb\<close> strategy, the tile numbers;
  \<^verbatim>\<open>tile_structs\<close> maps a telescope name to its numbered tiles. A tile number is an
  integer (\<^verbatim>\<open>int(k)\<close> is the identity on it). A field that is \<open>None\<close> is a missing
  key. The json file of the source is kept by the one entry the method reads,
  \<^verbatim>\<open>input_params["waveform_params"]["DeltatL_cut"]\<close>.
\<close>

record tile =
  beta_range :: "real \<times> real"
  lambda_range :: "real \<times> real"

record tiledict =
  Tile_Strat :: "string option"
  LISA_Data_File :: "val option"
  numbered_tiles :: "(int \<times> tile) list"
  tile_structs :: "(string \<times> (int \<times> tile) list) list option"

datatype fentry = SaveFile snapshot | TileFile tiledict | JsonFile "real option" | OtherFile

type_synonym fsys = "string \<rightharpoonup> fentry"

definition isfile :: "fsys \<Rightarrow> string \<Rightarrow> bool" where
  "isfile fs p = (fs p \<noteq> None)"

section \<open>Construction parameters\<close>

text \<open>
  \<^verbatim>\<open>**kwargs\<close> is a Python dictionary: its keys are distinct and it is iterated in
  insertion order, so it is an association list. \<open>kw_set\<close> is
  \<^verbatim>\<open>kwargs[k] = v\<close> for a key that is present, \<open>kw_del\<close> is \<^verbatim>\<open>del kwargs[k]\<close>.
\<close>

definition kw_set :: "kwargs \<Rightarrow> string \<Rightarrow> val \<Rightarrow> kwargs" where
  "kw_set kw k v = map (\<lambda>(k', v'). if k' = k then (k', v) else (k', v')) kw"

definition kw_del :: "kwargs \<Rightarrow> string \<Rightarrow> kwargs" where
  "kw_del kw k = filter (\<lambda>(k', v'). k' \<noteq> k) kw"

definition as_str :: "val \<Rightarrow> error + string" where
  "as_str v = (case v of VStr s \<Rightarrow> Inr s | _ \<Rightarrow> Inl (AttributeError ''split''))"

definition as_num :: "val \<Rightarrow> error + real" where
  "as_num v = (case v of VNum x \<Rightarrow> Inr x | VBool b \<Rightarrow> Inr (if b then 1 else 0) | _ \<Rightarrow> Inl TypeError)"

subsection \<open>The mutation decision (lines 148--159)\<close>

text \<open>
  \<^verbatim>\<open>
  if "NewExistentialFileName" in kwargs:
      MUTATED=True
  elif len(kwargs.keys())>1:
      ValueCheck1 = [value!=telescope_go_params[key] for key,value in kwargs.items()
                     if key in telescope_go_params and key not in ["Tobs"]]
      ValueCheck2 = [value!=telescope_config_struct[key] for key,value in kwargs.items()
                     if key in telescope_config_struct and key not in ["Tobs"]]
      KeysCheck = [(key not in telescope_go_params) and (key not in telescope_config_struct)
                   for key in kwargs.keys()]
      if "Tobs" in kwargs and not np.array_equal(kwargs["Tobs"],telescope_go_params["Tobs"]):
          MUTATED=True
      elif any(ValueCheck1+ValueCheck2+KeysCheck):
          MUTATED=True
  \<close>
  \<^verbatim>\<open>MUTATED\<close> starts as \<^verbatim>\<open>False\<close> (line 69). At this point \<^verbatim>\<open>verbose\<close> has been
  popped from \<^verbatim>\<open>kwargs\<close> (line 66) and \<^verbatim>\<open>ExistentialFileName\<close> deleted (line 99),
  so \<^verbatim>\<open>kwargs\<close> holds the overlay only. The comparisons \<^verbatim>\<open>value!=...\<close> are taken
  to give a truth value (on a numpy array they would not, which is why the source
  treats \<^verbatim>\<open>Tobs\<close> apart).
\<close>

definition ValueCheck :: "dict \<Rightarrow> kwargs \<Rightarrow> bool list" where
  "ValueCheck d kw =
     concat (map (\<lambda>(key, value).
                    case d key of
                      None \<Rightarrow> []
                    | Some old \<Rightarrow> if key = ''Tobs'' then [] else [py_ne value old]) kw)"

definition KeysCheck :: "dict \<Rightarrow> dict \<Rightarrow> kwargs \<Rightarrow> bool list" where
  "KeysCheck go cfg kw = map (\<lambda>(key, value). go key = None \<and> cfg key = None) kw"

definition py_any :: "bool list \<Rightarrow> bool" where
  "py_any bs = list_ex (\<lambda>b. b) bs"

definition decide_mutation :: "dict \<Rightarrow> dict \<Rightarrow> kwargs \<Rightarrow> error + bool" where
  "decide_mutation go cfg kw =
     (if kw_in ''NewExistentialFileName'' kw then Inr True
      else if length kw > 1 then
        (case map_of kw ''Tobs'' of
           None \<Rightarrow> Inr (py_any (ValueCheck go kw @ ValueCheck cfg kw @ KeysCheck go cfg kw))
         | Some new \<Rightarrow>
             (case go ''Tobs'' of
                None \<Rightarrow> Inl (KeyError ''Tobs'')
              | Some old \<Rightarrow>
                  if \<not> array_equal new old then Inr True
                  else Inr (py_any (ValueCheck go kw @ ValueCheck cfg kw @ KeysCheck go cfg kw))))
      else Inr False)"

text \<open>
  The decision as claim C1 words it: a new-identity directive is present, or an
  overlay key of a saved mapping has a value that differs from the saved one, or
  \<^verbatim>\<open>Tobs\<close> differs from the saved array, or an overlay key is in neither mapping.
\<close>

definition differs_in :: "dict \<Rightarrow> string \<times> val \<Rightarrow> bool" where
  "differs_in d kv = (case d (fst kv) of None \<Rightarrow> False | Some old \<Rightarrow> py_ne (snd kv) old)"

definition spec_mutated :: "dict \<Rightarrow> dict \<Rightarrow> kwargs \<Rightarrow> bool" where
  "spec_mutated go cfg kw =
     (kw_in ''NewExistentialFileName'' kw
      \<or> list_ex (\<lambda>kv. fst kv \<noteq> ''Tobs'' \<and> (differs_in go kv \<or> differs_in cfg kv)) kw
      \<or> (case map_of kw ''Tobs'' of
            None \<Rightarrow> False
          | Some new \<Rightarrow> (case go ''Tobs'' of None \<Rightarrow> False | Some old \<Rightarrow> \<not> array_equal new old))
      \<or> list_ex (\<lambda>kv. go (fst kv) = None \<and> cfg (fst kv) = None) kw)"

subsection \<open>Back-filling from the defaults (lines 163--171)\<close>

text \<open>
  \<^verbatim>\<open>
  for key,value in kwargs.items():
      if key in go_params_default and key not in telescope_go_params
              and key not in ["NewExistentialFileName","NeworbitFile"]:
          telescope_go_params[key]=value
      elif key in go_params_default:
          telescope_go_params[key]=go_params_default[key]
      (the same for config_struct_default and telescope_config_struct)
  \<close>
\<close>

definition backfill1 :: "dict \<Rightarrow> dict \<Rightarrow> string \<Rightarrow> val \<Rightarrow> dict" where
  "backfill1 dflt d key value =
     (case dflt key of
        None \<Rightarrow> d
      | Some dv \<Rightarrow>
          if d key = None \<and> key \<notin> set [''NewExistentialFileName'', ''NeworbitFile'']
          then d(key \<mapsto> value) else d(key \<mapsto> dv))"

fun backfill :: "dict \<Rightarrow> dict \<Rightarrow> dict \<Rightarrow> dict \<Rightarrow> kwargs \<Rightarrow> dict \<times> dict" where
  "backfill god cfgd go cfg [] = (go, cfg)"
| "backfill god cfgd go cfg ((key, value) # kw) =
     backfill god cfgd (backfill1 god go key value) (backfill1 cfgd cfg key value) kw"

subsection \<open>The merge of the overlay (lines 183--192)\<close>

text \<open>
  \<^verbatim>\<open>
  print_reminder = False
  for key,value in kwargs.items():
      if key in telescope_go_params:
          telescope_go_params[key]=value
      elif key in telescope_config_struct:
          telescope_config_struct[key]=value
      elif key not in ["NewExistentialFileName","NeworbitFile"]:
          print_reminder = True
          telescope_config_struct[key]=value
  \<close>
  The third component is \<^verbatim>\<open>print_reminder\<close>, which makes line 339 print the advisory
  once.
\<close>

fun merge_kwargs :: "dict \<Rightarrow> dict \<Rightarrow> bool \<Rightarrow> kwargs \<Rightarrow> dict \<times> dict \<times> bool" where
  "merge_kwargs go cfg rem [] = (go, cfg, rem)"
| "merge_kwargs go cfg rem ((key, value) # kw) =
     (if go key \<noteq> None then merge_kwargs (go(key \<mapsto> value)) cfg rem kw
      else if cfg key \<noteq> None then merge_kwargs go (cfg(key \<mapsto> value)) rem kw
      else if key \<notin> set [''NewExistentialFileName'', ''NeworbitFile'']
      then merge_kwargs go (cfg(key \<mapsto> value)) True kw
      else merge_kwargs go cfg rem kw)"

section \<open>File-name versioning\<close>

text \<open>
  \<^verbatim>\<open>__init__\<close> repeats the same text three times, for the tesselation file (lines
  213--225), the orbit file (247--258) and the save file (310--322):
  \<^verbatim>\<open>
  try:
      Ext = path.split("_")[-1]
      Ext = int(Ext.split(".")[0])
  except:
      Ext = 1
      path = ".".join(path.split(".")[:-1]) + "_1." + path.split(".")[-1]
  while os.path.isfile(path):
      Ext += 1
      path = "_".join(path.split("_")[:-1]) + "_" + str(Ext) + "." + path.split(".")[-1]
  \<close>
  \<open>version_start\<close> is the \<^verbatim>\<open>try\<close>/\<^verbatim>\<open>except\<close>, \<open>version_probe\<close> the loop. The loop
  has no bound in the source, so it is a partial function: \<open>None\<close> is a run that
  never ends.
\<close>

definition version_start :: "string \<Rightarrow> int \<times> string" where
  "version_start p =
     (case py_int (hd (py_split ''.'' (last (py_split ''_'' p)))) of
        Some n \<Rightarrow> (n, p)
      | None \<Rightarrow> (1, py_join ''.'' (butlast (py_split ''.'' p)) @ ''_1.'' @ last (py_split ''.'' p)))"

definition version_next :: "int \<Rightarrow> string \<Rightarrow> string" where
  "version_next n p =
     py_join ''_'' (butlast (py_split ''_'' p)) @ ''_'' @ str_int n @ ''.'' @ last (py_split ''.'' p)"

partial_function (option) version_probe :: "fsys \<Rightarrow> int \<Rightarrow> string \<Rightarrow> string option" where
  "version_probe fs n p =
     (if isfile fs p then version_probe fs (n + 1) (version_next (n + 1) p) else Some p)"

definition version_path :: "fsys \<Rightarrow> string \<Rightarrow> string option" where
  "version_path fs p = (case version_start p of (n, p') \<Rightarrow> version_probe fs n p')"

text \<open>The \<open>k\<close>-th version of \<open>X.ext\<close>, as the loop writes it.\<close>

definition versioned :: "string \<Rightarrow> int \<Rightarrow> string \<Rightarrow> string" where
  "versioned X k ext = X @ ''_'' @ str_int k @ ''.'' @ ext"

section \<open>GetKuiper\<close>

record source =
  xray_time :: "real list"
  xray_flux :: "real list"
  GW_phi :: "real list"
  CTR :: "real list"
  beta :: real
  lamda :: real

text \<open>
  What \<^verbatim>\<open>GetKuiper\<close> takes from outside the module: the names Python's built-in scope
  binds, \<^verbatim>\<open>SYU.CompleteLisabetaDataAndJsonFileNames\<close>, the random draw of the photon
  arrival times and phases (lines 438--463: \<^verbatim>\<open>np.trapz\<close>, \<^verbatim>\<open>np.random.choice\<close>,
  \<^verbatim>\<open>scipy.interpolate.interp1d\<close>, \<^verbatim>\<open>random.random\<close>), and
  \<^verbatim>\<open>astropy.stats.kuiper\<close> against the uniform distribution on \<open>[0, 2\<pi>)\<close>, which
  returns the statistic and its p-value.
\<close>

record kuiper_env =
  builtins :: "string list"
  CompleteLisabetaDataAndJsonFileNames :: "string \<Rightarrow> error + string \<times> string"
  sample_photons :: "real list \<Rightarrow> real list \<Rightarrow> real list \<Rightarrow> error + real list \<times> real list"
  kuiper :: "real list \<Rightarrow> error + real \<times> real"

subsection \<open>Name resolution (line 397)\<close>

text \<open>
  A name that the function never assigns is looked up in the module's globals and then
  in the built-in scope; \<^verbatim>\<open>NameError\<close> otherwise. The globals are the names bound at
  module level: the imports of lines 1--23 and the class of line 29.
\<close>

definition module_globals :: "string list" where
  "module_globals =
     [''u'', ''astat'', ''Time'', ''astropy'', ''astroplan'', ''np'', ''os'', ''SYU'',
      ''SYNEX_PATH'', ''gwemopt'', ''json'', ''date'', ''pathlib'', ''pickle'', ''matplotlib'',
      ''plt'', ''scipy'', ''copy'', ''MPI'', ''Athena'']"

definition load_global :: "kuiper_env \<Rightarrow> string \<Rightarrow> error + string" where
  "load_global K name =
     (if name \<in> set module_globals \<or> name \<in> set (builtins K) then Inr name
      else Inl (NameError name))"

subsection \<open>The tiles of the run (lines 407--420)\<close>

text \<open>
  \<^verbatim>\<open>
  n_times = int(-TimeToMerger//self.T_lat)
  if TileDict["Tile Strat"]=="MaxProb":
      TileDict_reduced = {k: v for k, v in TileDict.items()
                          if k not in Extra_keys and int(k)<n_times}
  else:
      for telescope in TileDict["tile_structs"].keys():
          TileDict_reduced = {k: v for k, v in TileDict["tile_structs"][telescope].items()
                              if int(k)<n_times}
  max_key = [int(k) for k in TileDict_reduced.keys()]
  max_key = max(max_key)
  if max_key<n_times:
      n_times = max_key
  \<close>
\<close>

definition py_max :: "int list \<Rightarrow> error + int" where
  "py_max xs = (case xs of [] \<Rightarrow> Inl (ValueError ''max'') | x # ys \<Rightarrow> Inr (fold max ys x))"

definition reduce_tiles :: "int \<Rightarrow> (int \<times> tile) list \<Rightarrow> (int \<times> tile) list" where
  "reduce_tiles n_times tiles = filter (\<lambda>kv. fst kv < n_times) tiles"

definition select_tiles :: "real \<Rightarrow> real \<Rightarrow> tiledict \<Rightarrow> error + int \<times> (int \<times> tile) list" where
  "select_tiles T_lat TimeToMerger TileDict =
     (if T_lat = 0 then Inl ZeroDivisionError
      else
        let n_times = \<lfloor>- TimeToMerger / T_lat\<rfloor> in
        case Tile_Strat TileDict of
          None \<Rightarrow> Inl (KeyError ''Tile Strat'')
        | Some strat \<Rightarrow>
            ebind
              (if strat = ''MaxProb'' then Inr (reduce_tiles n_times (numbered_tiles TileDict))
               else
                 (case tile_structs TileDict of
                    None \<Rightarrow> Inl (KeyError ''tile_structs'')
                  | Some structs \<Rightarrow>
                      if structs = [] then Inl (UnboundLocalError ''TileDict_reduced'')
                      else Inr (reduce_tiles n_times (snd (last structs)))))
              (\<lambda>TileDict_reduced.
                 ebind (py_max (map fst TileDict_reduced))
                   (\<lambda>max_key.
                      Inr (if max_key < n_times then max_key else n_times, TileDict_reduced))))"


subsection \<open>The loop over the tiles (lines 473--546)\<close>

text \<open>
  The variables of the loop. \<^verbatim>\<open>detection_p_val\<close> and \<^verbatim>\<open>tile_detection_p_val\<close> are
  assigned only inside the branch of line 502, so they are optional: \<open>None\<close> is a
  local that is not bound yet. \<^verbatim>\<open>self.n_photons\<close> is \<open>n_photons_list\<close> and the local
  \<^verbatim>\<open>n_photons\<close> is \<open>n_photons\<close>.
\<close>

record kstate =
  ts :: real
  te :: real
  kuipers :: "real list"
  n_photons_list :: "nat list"
  n_exposures :: nat
  exposure_photons :: nat
  exposure_t_is :: "real list"
  exposure_phi_is :: "real list"
  exposure_tiles :: "int list"
  exposure_kuiper :: real
  exposure_p_val :: real
  tile_p_val :: real
  n_photons :: nat
  detection_p_val :: "real option"
  tile_detection_p_val :: "real option"
  tile_kuiper_p_val_trace :: "real list"
  tile_detection_p_val_trace :: "real list"
  exposure_kuiper_trace :: "real list"
  exposure_kuiper_p_val_trace :: "real list"
  detection_kuiper_p_val_trace :: "real list"
  accum_exposure_photons_trace :: "nat list"
  exposure_photons_trace :: "nat list"

definition kuiper_init :: "real \<Rightarrow> real \<Rightarrow> kstate" where
  "kuiper_init ts0 T_lat =
     \<lparr>ts = ts0, te = ts0 + T_lat, kuipers = [0.1], n_photons_list = [], n_exposures = 0,
      exposure_photons = 0, exposure_t_is = [], exposure_phi_is = [], exposure_tiles = [],
      exposure_kuiper = 0.01, exposure_p_val = 1, tile_p_val = 1, n_photons = 0,
      detection_p_val = None, tile_detection_p_val = None,
      tile_kuiper_p_val_trace = [], tile_detection_p_val_trace = [],
      exposure_kuiper_trace = [], exposure_kuiper_p_val_trace = [],
      detection_kuiper_p_val_trace = [], accum_exposure_photons_trace = [],
      exposure_photons_trace = []\<rparr>"

definition in_tile :: "source \<Rightarrow> tile \<Rightarrow> bool" where
  "in_tile src t =
     (beta src < snd (beta_range t) \<and> beta src > fst (beta_range t)
      \<and> lamda src < snd (lambda_range t) \<and> lamda src > fst (lambda_range t))"

definition two_pi :: real where
  "two_pi = 2 * pi"

definition py_fmod :: "real \<Rightarrow> real \<Rightarrow> real" where
  "py_fmod x m = x - m * of_int \<lfloor>x / m\<rfloor>"

text \<open>The trials factor of lines 528 and 529, and the detection p-value.\<close>

definition trials :: nat where
  "trials = 518400"

definition detection :: "real \<Rightarrow> nat \<Rightarrow> real" where
  "detection p n = 1 - (1 - p) ^ (n * trials)"

text \<open>
  Lines 504--532, run when the tile contains the source. An exception of
  \<^verbatim>\<open>kuiper\<close> ends the run; the state is returned with it, as the attributes of
  \<^verbatim>\<open>self\<close> keep what was assigned before. The histograms of lines 520--524 and the
  lists \<^verbatim>\<open>tile_CTR\<close> and \<^verbatim>\<open>tile_xray_time\<close> are computed and never read; they are
  left out.
\<close>

definition expose ::
  "kuiper_env \<Rightarrow> real list \<Rightarrow> real list \<Rightarrow> int \<Rightarrow> kstate \<Rightarrow> (error \<times> kstate) + kstate" where
  "expose K t_is_merger phi_is_merger tileno s =
     (let t_is = filter (\<lambda>t. ts s < t \<and> t < te s) t_is_merger;
          phi_is = map (\<lambda>pt. py_fmod (fst pt) two_pi)
                     (filter (\<lambda>pt. ts s < snd pt \<and> snd pt < te s) (zip phi_is_merger t_is_merger));
          s1 = s\<lparr>n_photons := length t_is, n_photons_list := n_photons_list s @ [length t_is]\<rparr>
      in case kuiper K phi_is of
           Inl e \<Rightarrow> Inl (e, s1)
         | Inr (tile_kuiper, tile_p) \<Rightarrow>
            (let s2 = s1\<lparr>tile_p_val := tile_p,
                        kuipers := kuipers s1 @ [tile_kuiper],
                        n_exposures := n_exposures s1 + 1,
                        exposure_tiles := exposure_tiles s1 @ [tileno],
                        exposure_photons := exposure_photons s1 + length t_is,
                        exposure_t_is := exposure_t_is s1 @ t_is,
                        exposure_phi_is := exposure_phi_is s1 @ phi_is\<rparr>
             in (case kuiper K (exposure_phi_is s2) of
                   Inl e \<Rightarrow> Inl (e, s2)
                 | Inr (exp_kuiper, exp_p) \<Rightarrow>
                     let s3 = s2\<lparr>exposure_kuiper := exp_kuiper, exposure_p_val := exp_p\<rparr>
                     in if n_exposures s3 > 0
                        then Inr (s3\<lparr>detection_p_val := Some (detection exp_p (n_exposures s3)),
                                     tile_detection_p_val := Some (detection tile_p (n_exposures s3))\<rparr>)
                        else Inr (s3\<lparr>detection_p_val := Some (1 - (1 - exp_p)),
                                     tile_detection_p_val := Some (1 - (1 - tile_p))\<rparr>))))"

text \<open>
  Lines 536--546, run for every tile: seven appends in the order of the source, then
  the window moves on. Reading a local that is not bound raises
  \<^verbatim>\<open>UnboundLocalError\<close>, after the appends before it have been done.
\<close>

definition trace_append :: "real \<Rightarrow> kstate \<Rightarrow> (error \<times> kstate) + kstate" where
  "trace_append T_lat s =
     (let s1 = s\<lparr>tile_kuiper_p_val_trace := tile_kuiper_p_val_trace s @ [tile_p_val s]\<rparr>
      in case tile_detection_p_val s1 of
           None \<Rightarrow> Inl (UnboundLocalError ''tile_detection_p_val'', s1)
         | Some td \<Rightarrow>
            (let s2 = s1\<lparr>tile_detection_p_val_trace := tile_detection_p_val_trace s1 @ [td],
                        exposure_kuiper_trace := exposure_kuiper_trace s1 @ [exposure_kuiper s1],
                        exposure_kuiper_p_val_trace :=
                          exposure_kuiper_p_val_trace s1 @ [exposure_p_val s1]\<rparr>
             in (case detection_p_val s2 of
                   None \<Rightarrow> Inl (UnboundLocalError ''detection_p_val'', s2)
                 | Some d \<Rightarrow>
                     Inr (s2\<lparr>detection_kuiper_p_val_trace := detection_kuiper_p_val_trace s2 @ [d],
                             accum_exposure_photons_trace :=
                               accum_exposure_photons_trace s2 @ [exposure_photons s2],
                             exposure_photons_trace := exposure_photons_trace s2 @ [n_photons s2],
                             ts := te s2,
                             te := te s2 + T_lat\<rparr>))))"

definition tile_step ::
  "kuiper_env \<Rightarrow> source \<Rightarrow> real \<Rightarrow> real list \<Rightarrow> real list \<Rightarrow> int \<times> tile \<Rightarrow> kstate
   \<Rightarrow> (error \<times> kstate) + kstate" where
  "tile_step K src T_lat t_is_merger phi_is_merger kt s =
     (if in_tile src (snd kt) then
        (case expose K t_is_merger phi_is_merger (fst kt) s of
           Inl x \<Rightarrow> Inl x
         | Inr s' \<Rightarrow> trace_append T_lat s')
      else trace_append T_lat s)"

fun kuiper_loop ::
  "kuiper_env \<Rightarrow> source \<Rightarrow> real \<Rightarrow> real list \<Rightarrow> real list \<Rightarrow> (int \<times> tile) list \<Rightarrow> kstate
   \<Rightarrow> (error \<times> kstate) + kstate" where
  "kuiper_loop K src T_lat t_is_merger phi_is_merger [] s = Inr s"
| "kuiper_loop K src T_lat t_is_merger phi_is_merger (kt # tiles) s =
     (case tile_step K src T_lat t_is_merger phi_is_merger kt s of
        Inl x \<Rightarrow> Inl x
      | Inr s' \<Rightarrow> kuiper_loop K src T_lat t_is_merger phi_is_merger tiles s')"

subsection \<open>The method\<close>

text \<open>
  Lines 402--470 and the loop, once the tile dictionary and the json parameters are
  read (\<open>None\<close>: the json file has no entry \<^verbatim>\<open>DeltatL_cut\<close>). \<^verbatim>\<open>self.T_lat\<close> is set nowhere in the class, so it is an optional attribute;
  \<^verbatim>\<open>source\<close> defaults to \<^verbatim>\<open>None\<close>.
\<close>

definition GetKuiper_run ::
  "kuiper_env \<Rightarrow> real option \<Rightarrow> source option \<Rightarrow> tiledict \<Rightarrow> real option \<Rightarrow> error + kstate" where
  "GetKuiper_run K T_lat_attr source_arg TileDict input_params =
     (case source_arg of
        None \<Rightarrow> Inl (AttributeError ''xray_time'')
      | Some src \<Rightarrow>
          (case xray_time src of
             [] \<Rightarrow> Inl IndexError
           | T_s # _ \<Rightarrow>
              (case input_params of
                 None \<Rightarrow> Inl (KeyError ''DeltatL_cut'')
               | Some DeltatL_cut \<Rightarrow>
               let TimeToMerger = (if T_s > DeltatL_cut then T_s else DeltatL_cut) in
               (case T_lat_attr of
                  None \<Rightarrow> Inl (AttributeError ''T_lat'')
                | Some T_lat \<Rightarrow>
                    ebind (select_tiles T_lat TimeToMerger TileDict)
                      (\<lambda>sel.
                         let xray_time_merger = filter (\<lambda>t. t \<ge> TimeToMerger) (xray_time src);
                             phi_merger = map (\<lambda>tp. snd tp / 2)
                               (filter (\<lambda>tp. fst tp \<ge> TimeToMerger) (zip (xray_time src) (GW_phi src)));
                             CTR_merger = map snd
                               (filter (\<lambda>tc. fst tc \<ge> TimeToMerger) (zip (xray_time src) (CTR src)))
                         in if CTR_merger \<noteq> [] \<and> sum_list CTR_merger = 0 then Inl ZeroDivisionError
                            else
                              (case xray_time_merger of
                                 [] \<Rightarrow> Inl IndexError
                               | ts0 # _ \<Rightarrow>
                                   ebind (sample_photons K xray_time_merger phi_merger CTR_merger)
                                     (\<lambda>photons.
                                        case kuiper_loop K src T_lat (fst photons) (snd photons)
                                               (snd sel) (kuiper_init ts0 T_lat) of
                                          Inl x \<Rightarrow> Inl (fst x)
                                        | Inr s \<Rightarrow> Inr s)))))))"

definition load_json :: "fsys \<Rightarrow> string \<Rightarrow> error + real option" where
  "load_json fs json_file =
     (case fs json_file of
        None \<Rightarrow> Inl (OSError json_file)
      | Some (JsonFile input_params) \<Rightarrow> Inr input_params
      | Some other \<Rightarrow> Inl (ValueError json_file))"

text \<open>
  Lines 393--400:
  \<^verbatim>\<open>
  with open(TilePickleFile, 'rb') as f:
      TileDict = pickle.load(f)
  H5FileLocAndName = TileDict["LISA Data File"]
  json_file,H5FileLocAndName=SYU.CompleteLisabetaDataAndJsonFileNames(LISAPosteriorDataFile)
  with open(json_file, 'r') as f:
      input_params = json.load(f)
  \<close>
  The argument of the call is evaluated before the call. The result is the state of
  the loop, which holds the attributes the method sets on \<^verbatim>\<open>self\<close>.
\<close>

definition GetKuiper ::
  "kuiper_env \<Rightarrow> fsys \<Rightarrow> real option \<Rightarrow> string \<Rightarrow> source option \<Rightarrow> error + kstate" where
  "GetKuiper K fs T_lat_attr TilePickleFile source_arg =
     (case fs TilePickleFile of
        None \<Rightarrow> Inl (OSError TilePickleFile)
      | Some (TileFile TileDict) \<Rightarrow>
          (case LISA_Data_File TileDict of
             None \<Rightarrow> Inl (KeyError ''LISA Data File'')
           | Some H5FileLocAndName \<Rightarrow>
               ebind (load_global K ''LISAPosteriorDataFile'')
                 (\<lambda>arg.
                    ebind (CompleteLisabetaDataAndJsonFileNames K arg)
                      (\<lambda>names.
                         ebind (load_json fs (fst names))
                           (\<lambda>input_params.
                              GetKuiper_run K T_lat_attr source_arg TileDict input_params))))
      | Some _ \<Rightarrow> Inl (UnpicklingError TilePickleFile))"

subsection \<open>A small run\<close>

text \<open>
  Concrete inputs on which the theorems below are evaluated: three tiles that do not
  contain the source, a source with two samples, and collaborators that return
  constants (\<open>demo_kuiper_env p\<close> has a Kuiper test that always reports the p-value
  \<open>p\<close>).
\<close>

definition demo_tile :: tile where
  "demo_tile = \<lparr>beta_range = (1, 2), lambda_range = (1, 2)\<rparr>"

definition demo_source :: source where
  "demo_source = \<lparr>xray_time = [-100, -50], xray_flux = [1, 1], GW_phi = [0, 1], CTR = [1, 1],
                   beta = 0, lamda = 0\<rparr>"

definition demo_tiledict :: tiledict where
  "demo_tiledict = \<lparr>Tile_Strat = Some ''MaxProb'', LISA_Data_File = Some (VStr ''/d/run.h5''),
                     numbered_tiles = [(0, demo_tile), (1, demo_tile), (2, demo_tile)],
                     tile_structs = None\<rparr>"

definition demo_kuiper_env :: "real \<Rightarrow> kuiper_env" where
  "demo_kuiper_env p =
     \<lparr>builtins = [''int'', ''max'', ''sum'', ''len'', ''open'', ''print'', ''zip'', ''range'', ''list''],
      CompleteLisabetaDataAndJsonFileNames = (\<lambda>n. Inr (''/d/run.json'', ''/d/run.h5'')),
      sample_photons = (\<lambda>ts phis ctrs. Inr ([], [])),
      kuiper = (\<lambda>xs. Inr (0, p))\<rparr>"

subsection \<open>What the claims say of a run\<close>

text \<open>
  The lengths of the seven traces, the state a run ends in (with or without an
  exception), the interval \<open>[0, 1]\<close>, the p-values of a state (the current ones and all
  that were traced), and the formula of lines 528 and 529 on the current values.
  \<open>hit_tile\<close> is a tile that contains \<open>demo_source\<close>.
\<close>

definition trace_lengths :: "kstate \<Rightarrow> nat list" where
  "trace_lengths s =
     [length (tile_kuiper_p_val_trace s), length (tile_detection_p_val_trace s),
      length (exposure_kuiper_trace s), length (exposure_kuiper_p_val_trace s),
      length (detection_kuiper_p_val_trace s), length (accum_exposure_photons_trace s),
      length (exposure_photons_trace s)]"







section \<open>The instrument\<close>

text \<open>
  The attributes of an \<^verbatim>\<open>Athena\<close> object. \<^verbatim>\<open>MutatedFromTelescopeFile\<close> is set only on
  some paths: the outer \<open>None\<close> is an attribute that does not exist, the inner one is
  Python's \<^verbatim>\<open>None\<close>. \<^verbatim>\<open>ARF_file_loc_name\<close> is set at the end of \<^verbatim>\<open>__init__\<close>.
\<close>

record athena =
  verbose :: val
  PermissionToWrite :: bool
  ExistentialFileName :: string
  MutatedFromTelescopeFile :: "string option option"
  telescope_go_params :: dict
  telescope_config_struct :: dict
  telescope_source_coverage :: "coverage option"
  telescope_tile_struct :: "val option"
  ARF_file_loc_name :: "string option"

text \<open>
  What the class takes from outside the file: \<^verbatim>\<open>SYNEX_PATH\<close>, whether MPI runs more
  than one process (lines 78--85), the two default dictionaries of
  \<^verbatim>\<open>SYNEX.gwemopt_defaults\<close>, whether \<^verbatim>\<open>pathlib.Path(p).mkdir(parents=True,
  exist_ok=True)\<close> succeeds, and the collaborators: the orbit file name built from the
  configuration (lines 230--235: \<^verbatim>\<open>astropy.time.Time\<close> and float formatting),
  \<^verbatim>\<open>SYU.GWEMOPTPathChecks\<close>, \<^verbatim>\<open>segs_a.get_telescope_orbit\<close> with its \<^verbatim>\<open>SAVETOFILE\<close>
  flag, the two tesselation routines of gwemopt with their \<^verbatim>\<open>WriteToFile\<close> flag, the
  contents of \<^verbatim>\<open>np.empty((3,))\<close>, numpy's conversion of strings to floats, and the
  reading of the reference table (lines 365--375).
\<close>

record env =
  SYNEX_PATH :: string
  use_mpi :: bool
  go_params_default :: dict
  config_struct_default :: dict
  mkdir_ok :: "string \<Rightarrow> bool"
  orbit_file_name :: "dict \<Rightarrow> error + string"
  GWEMOPTPathChecks :: "dict \<Rightarrow> dict \<Rightarrow> error + dict \<times> dict"
  get_telescope_orbit :: "dict \<Rightarrow> bool \<Rightarrow> fsys \<Rightarrow> error + dict \<times> fsys"
  tesselation_spiral :: "dict \<Rightarrow> bool \<Rightarrow> fsys \<Rightarrow> error + (real list \<times> real list) \<times> fsys"
  tesselation_packing :: "dict \<Rightarrow> bool \<Rightarrow> fsys \<Rightarrow> error + (real list \<times> real list) \<times> fsys"
  np_empty3 :: "real list"
  parse_floats :: "string list \<Rightarrow> error + real list"
  read_reference_images :: "val \<Rightarrow> fsys \<Rightarrow> error + val"

definition dirname :: "string \<Rightarrow> string" where
  "dirname p = py_join ''/'' (butlast (py_split ''/'' p))"

definition mkdir_p :: "env \<Rightarrow> string \<Rightarrow> error + unit" where
  "mkdir_p E p = (if mkdir_ok E p then Inr () else Inl (OSError p))"

definition under_SYNEX :: "env \<Rightarrow> string \<Rightarrow> string" where
  "under_SYNEX E p = SYNEX_PATH E @ ''/'' @ last (py_split ''/SYNEX/'' p)"

text \<open>\<^verbatim>\<open>".".join(p.split(".")[:-1]) + ext\<close>\<close>

definition with_ext :: "string \<Rightarrow> string \<Rightarrow> string" where
  "with_ext p ext = py_join ''.'' (butlast (py_split ''.'' p)) @ ext"

definition path_operand :: "val \<Rightarrow> error + string" where
  "path_operand v = (case v of VStr s \<Rightarrow> Inr s | _ \<Rightarrow> Inl TypeError)"

subsection \<open>ExistentialCrisis (lines 553--579)\<close>

text \<open>
  \<^verbatim>\<open>
  if NewFileName!=None:
      NewFilePath="/".join(NewFileName.split("/")[:-1])
      pathlib.Path(NewFilePath).mkdir(parents=True, exist_ok=True)
      self.ExistentialFileName = NewFileName
  MyExistentialDict = copy.deepcopy(self.__dict__)
  del MyExistentialDict["telescope_config_struct"]["orbit_dict"]
  del MyExistentialDict["telescope_config_struct"]["tesselation"]
  with open(self.ExistentialFileName, 'wb') as f:
      pickle.dump(MyExistentialDict, f)
  \<close>
  The pickled dictionary is kept by the five keys that \<^verbatim>\<open>__init__\<close> reads back. The
  method does not read \<^verbatim>\<open>self.PermissionToWrite\<close>.
\<close>

definition snapshot_of :: "athena \<Rightarrow> snapshot" where
  "snapshot_of self =
     \<lparr>snap_go_params = telescope_go_params self,
      snap_config_struct = (telescope_config_struct self)(''orbit_dict'' := None, ''tesselation'' := None),
      snap_source_coverage = Some (telescope_source_coverage self),
      snap_tile_struct = Some (telescope_tile_struct self),
      snap_MutatedFromTelescopeFile = MutatedFromTelescopeFile self\<rparr>"

definition ExistentialCrisis :: "env \<Rightarrow> athena \<Rightarrow> string option \<Rightarrow> fsys \<Rightarrow> error + athena \<times> fsys" where
  "ExistentialCrisis E self NewFileName fs =
     ebind
       (case NewFileName of
          None \<Rightarrow> Inr self
        | Some n \<Rightarrow> ebind (mkdir_p E (dirname n)) (\<lambda>u. Inr (self\<lparr>ExistentialFileName := n\<rparr>)))
       (\<lambda>self'.
          if telescope_config_struct self' ''orbit_dict'' = None then Inl (KeyError ''orbit_dict'')
          else if telescope_config_struct self' ''tesselation'' = None
          then Inl (KeyError ''tesselation'')
          else Inr (self', fs(ExistentialFileName self' \<mapsto> SaveFile (snapshot_of self'))))"

subsection \<open>ComputeTesselation (lines 342--379)\<close>

text \<open>
  Lines 343--351:
  \<^verbatim>\<open>
  if self.telescope_go_params["doSingleExposure"]:
      if "exposuretimes" in self.telescope_go_params:
          exposuretime = np.array(self.telescope_go_params["exposuretimes"].split(","),
                                  dtype=np.float)[0]
      else:
          exposuretime=self.telescope_config_struct["exposuretime"]
      nmag = -2.5*np.log10(np.sqrt(self.telescope_config_struct["exposuretime"]/exposuretime))
      self.telescope_config_struct["magnitude"] = self.telescope_config_struct["magnitude"] + nmag
      self.telescope_config_struct["exposuretime"] = exposuretime
  \<close>
  Over the reals the quotient must be positive for the logarithm to be a number; a zero
  or negative quotient (numpy's \<^verbatim>\<open>inf\<close> and \<^verbatim>\<open>nan\<close>, or \<^verbatim>\<open>ZeroDivisionError\<close>) is an
  error of the model. The conversion \<^verbatim>\<open>np.array(..., dtype=np.float)\<close> is the
  collaborator \<open>parse_floats\<close>; it fails on a string that is no number, and on a numpy
  that has no \<^verbatim>\<open>np.float\<close>.
\<close>

definition requested_exposuretime :: "env \<Rightarrow> dict \<Rightarrow> dict \<Rightarrow> error + real" where
  "requested_exposuretime E go cfg =
     (case go ''exposuretimes'' of
        Some v \<Rightarrow>
          ebind (as_str v)
            (\<lambda>s. ebind (parse_floats E (py_split '','' s))
                    (\<lambda>xs. case xs of [] \<Rightarrow> Inl IndexError | x # rest \<Rightarrow> Inr x))
      | None \<Rightarrow> ebind (getitem cfg ''exposuretime'') as_num)"

definition magnitude_correction :: "real \<Rightarrow> real \<Rightarrow> real" where
  "magnitude_correction baseline requested = - 2.5 * log 10 (sqrt (baseline / requested))"

definition single_exposure :: "env \<Rightarrow> athena \<Rightarrow> error + athena" where
  "single_exposure E self =
     ebind (getitem (telescope_go_params self) ''doSingleExposure'')
       (\<lambda>flag.
          if truthy flag then
            ebind (requested_exposuretime E (telescope_go_params self) (telescope_config_struct self))
              (\<lambda>exposuretime.
                 ebind (ebind (getitem (telescope_config_struct self) ''exposuretime'') as_num)
                   (\<lambda>baseline.
                      if exposuretime = 0 then Inl ZeroDivisionError
                      else if baseline / exposuretime \<le> 0 then Inl NonFinite
                      else
                        ebind (ebind (getitem (telescope_config_struct self) ''magnitude'') as_num)
                          (\<lambda>magnitude.
                             Inr (self\<lparr>telescope_config_struct :=
                                    (telescope_config_struct self)
                                      (''magnitude'' \<mapsto>
                                         VNum (magnitude + magnitude_correction baseline exposuretime),
                                       ''exposuretime'' \<mapsto> VNum exposuretime)\<rparr>))))
          else Inr self)"

text \<open>
  Lines 352--362. \<^verbatim>\<open>ras\<close> and \<^verbatim>\<open>decs\<close> are bound only for the two known shapes of
  the field of view.
\<close>

definition tess_rows :: "real list \<Rightarrow> real list \<Rightarrow> real list list" where
  "tess_rows ras decs =
     map (\<lambda>ird. [real (fst ird), fst (snd ird), snd (snd ird)]) (enumerate 0 (zip ras decs))"

definition tesselate :: "env \<Rightarrow> athena \<Rightarrow> fsys \<Rightarrow> error + athena \<times> fsys" where
  "tesselate E self fs =
     (let cfg = telescope_config_struct self in
      if cfg ''tesselationFile'' = None then Inr (self, fs)
      else
        ebind (getitem cfg ''FOV_type'')
          (\<lambda>fov.
             ebind
               (if py_eq fov (VStr ''circle'')
                then ebind (tesselation_spiral E cfg (PermissionToWrite self) fs)
                       (\<lambda>r. Inr (Some (fst r), snd r))
                else if py_eq fov (VStr ''square'')
                then ebind (tesselation_packing E cfg (PermissionToWrite self) fs)
                       (\<lambda>r. Inr (Some (fst r), snd r))
                else Inr (None, fs))
               (\<lambda>r.
                  ebind (getitem (telescope_go_params self) ''tilesType'')
                    (\<lambda>tilesType.
                       if py_eq tilesType (VStr ''galaxy'')
                       then Inr (self\<lparr>telescope_config_struct :=
                                   cfg(''tesselation'' \<mapsto> VArr (np_empty3 E))\<rparr>, snd r)
                       else
                         (case fst r of
                            None \<Rightarrow> Inl (UnboundLocalError ''ras'')
                          | Some radec \<Rightarrow>
                              Inr (self\<lparr>telescope_config_struct :=
                                     cfg(''tesselation'' \<mapsto>
                                           VTable (tess_rows (fst radec) (snd radec)))\<rparr>,
                                   snd r))))))"

text \<open>Lines 364--376.\<close>

definition reference_images :: "env \<Rightarrow> athena \<Rightarrow> fsys \<Rightarrow> error + athena" where
  "reference_images E self fs =
     (case telescope_config_struct self ''referenceFile'' of
        None \<Rightarrow> Inr self
      | Some f \<Rightarrow>
          ebind (read_reference_images E f fs)
            (\<lambda>imgs. Inr (self\<lparr>telescope_config_struct :=
                            (telescope_config_struct self)(''reference_images'' \<mapsto> imgs)\<rparr>)))"

definition ComputeTesselation :: "env \<Rightarrow> athena \<Rightarrow> fsys \<Rightarrow> error + athena \<times> fsys" where
  "ComputeTesselation E self fs =
     ebind (single_exposure E self)
       (\<lambda>s1. ebind (tesselate E s1 fs)
          (\<lambda>r. ebind (reference_images E (fst r) (snd r))
             (\<lambda>s3. ExistentialCrisis E s3 None (snd r))))"

subsection \<open>A small instrument\<close>

text \<open>
  Concrete collaborators for the evaluated theorems: every directory can be created,
  the orbit and tesselation routines write their file exactly when their flag allows
  it, and every string parses as the float 100. \<open>demo_athena perm\<close> is an instrument
  in single-exposure mode whose write permission is \<open>perm\<close>.
\<close>

definition demo_env :: "bool \<Rightarrow> env" where
  "demo_env mpi =
     \<lparr>SYNEX_PATH = ''/home/u/SYNEX'',
      use_mpi = mpi,
      go_params_default = [''doSingleExposure'' \<mapsto> VBool False, ''tilesType'' \<mapsto> VStr ''moc'',
                           ''Tobs'' \<mapsto> VArr [0, 1]],
      config_struct_default = [''tesselationFile'' \<mapsto> VNone, ''orbitFile'' \<mapsto> VNone,
                               ''telescope'' \<mapsto> VStr ''Athena'', ''FOV_type'' \<mapsto> VStr ''circle'',
                               ''exposuretime'' \<mapsto> VNum 10000, ''magnitude'' \<mapsto> VNum 20],
      mkdir_ok = (\<lambda>p. True),
      orbit_file_name = (\<lambda>cfg. Inr ''Athena_orbit.dat''),
      GWEMOPTPathChecks = (\<lambda>go cfg. Inr (go, cfg)),
      get_telescope_orbit =
        (\<lambda>cfg save fs.
           case cfg ''orbitFile'' of
             Some (VStr p) \<Rightarrow>
               Inr (cfg(''orbit_dict'' \<mapsto> VObj 0), if save then fs(p \<mapsto> OtherFile) else fs)
           | _ \<Rightarrow> Inl (ExternalError ''orbitFile'')),
      tesselation_spiral =
        (\<lambda>cfg write fs.
           case cfg ''tesselationFile'' of
             Some (VStr p) \<Rightarrow> Inr (([0, 90], [0, 45]), if write then fs(p \<mapsto> OtherFile) else fs)
           | _ \<Rightarrow> Inl (ExternalError ''tesselationFile'')),
      tesselation_packing =
        (\<lambda>cfg write fs.
           case cfg ''tesselationFile'' of
             Some (VStr p) \<Rightarrow> Inr (([0, 90], [0, 45]), if write then fs(p \<mapsto> OtherFile) else fs)
           | _ \<Rightarrow> Inl (ExternalError ''tesselationFile'')),
      np_empty3 = [0, 0, 0],
      parse_floats = (\<lambda>ss. Inr (map (\<lambda>s. 100) ss)),
      read_reference_images = (\<lambda>f fs. Inr (VObj 1))\<rparr>"

definition demo_athena :: "bool \<Rightarrow> athena" where
  "demo_athena perm =
     \<lparr>verbose = VBool False,
      PermissionToWrite = perm,
      ExistentialFileName = ''/home/u/SYNEX/Saved_Telescope_Dicts/Athena.dat'',
      MutatedFromTelescopeFile = None,
      telescope_go_params = [''doSingleExposure'' \<mapsto> VBool True, ''tilesType'' \<mapsto> VStr ''moc'',
                             ''exposuretimes'' \<mapsto> VStr ''100.0,200.0''],
      telescope_config_struct =
        [''tesselationFile'' \<mapsto> VStr ''/home/u/SYNEX/gwemopt_tess_files/Athena.tess'',
         ''FOV_type'' \<mapsto> VStr ''circle'', ''exposuretime'' \<mapsto> VNum 10000,
         ''magnitude'' \<mapsto> VNum 20, ''orbit_dict'' \<mapsto> VObj 0],
      telescope_source_coverage = None,
      telescope_tile_struct = None,
      ARF_file_loc_name = None\<rparr>"

section \<open>Construction (lines 57--340)\<close>

subsection \<open>Loading (lines 66--179)\<close>

text \<open>
  Lines 89--94: the directory of \<^verbatim>\<open>NewExistentialFileName\<close> is created; if that raises,
  the name is moved under \<^verbatim>\<open>SYNEX_PATH\<close>.
\<close>

definition fix_NewExistentialFileName :: "env \<Rightarrow> kwargs \<Rightarrow> error + kwargs" where
  "fix_NewExistentialFileName E kw =
     (case map_of kw ''NewExistentialFileName'' of
        None \<Rightarrow> Inr kw
      | Some v \<Rightarrow>
          ebind (as_str v)
            (\<lambda>p. if mkdir_ok E (dirname p) then Inr kw
                  else Inr (kw_set kw ''NewExistentialFileName'' (VStr (under_SYNEX E p)))))"

text \<open>
  Lines 117--137: the coverage of the snapshot, with its three file references moved
  under \<^verbatim>\<open>SYNEX_PATH\<close> when they contain \<^verbatim>\<open>/SYNEX/\<close> (lines 120--122), and replaced by
  the file of the same name in the directory layout of the save file when they are
  missing and that file exists (lines 124--135).
\<close>

definition relocate_ref :: "env \<Rightarrow> string option \<Rightarrow> string option" where
  "relocate_ref E f =
     (case f of
        None \<Rightarrow> None
      | Some p \<Rightarrow> if py_contains ''/SYNEX/'' p then Some (under_SYNEX E p) else Some p)"

definition recover_ref :: "env \<Rightarrow> fsys \<Rightarrow> string \<Rightarrow> string \<Rightarrow> string option \<Rightarrow> string option" where
  "recover_ref E fs efn subdir f =
     (case f of
        None \<Rightarrow> None
      | Some p \<Rightarrow>
          if \<not> isfile fs p then
            (let FileWithArch =
                   SYNEX_PATH E @ subdir
                   @ py_join ''/'' (butlast (py_split ''/''
                       (last (py_split ''/Saved_Telescope_Dicts/'' efn))))
                   @ ''/'' @ last (py_split ''/'' p)
             in if isfile fs FileWithArch then Some FileWithArch else Some p)
          else Some p)"

definition load_coverage :: "env \<Rightarrow> fsys \<Rightarrow> string \<Rightarrow> coverage \<Rightarrow> coverage" where
  "load_coverage E fs efn c =
     c\<lparr>source_JsonFile :=
         recover_ref E fs efn ''/inference_param_files/'' (relocate_ref E (source_JsonFile c)),
       source_H5File :=
         recover_ref E fs efn ''/inference_data/'' (relocate_ref E (source_H5File c)),
       source_save_file :=
         recover_ref E fs efn ''/Saved_Source_Dicts/'' (relocate_ref E (source_save_file c))\<rparr>"

definition snapshot_coverage :: "env \<Rightarrow> fsys \<Rightarrow> string \<Rightarrow> snapshot \<Rightarrow> coverage option" where
  "snapshot_coverage E fs efn S =
     (case snap_source_coverage S of
        Some (Some c) \<Rightarrow> Some (load_coverage E fs efn c)
      | _ \<Rightarrow> None)"

definition snapshot_tile_struct :: "snapshot \<Rightarrow> val option" where
  "snapshot_tile_struct S = (case snap_tile_struct S of Some t \<Rightarrow> t | None \<Rightarrow> None)"

text \<open>The local variables of \<^verbatim>\<open>__init__\<close> after line 179.\<close>

record loaded =
  l_ExistentialFileName :: "string option"
  l_MutatedFromTelescopeFile :: "string option option"
  l_go_params :: dict
  l_config_struct :: dict
  l_source_coverage :: "coverage option"
  l_tile_struct :: "val option"
  l_MUTATED :: bool
  l_kwargs :: kwargs
  l_verbose :: val

text \<open>Lines 110--171, once the save file has been unpickled.\<close>

definition resurrect :: "env \<Rightarrow> fsys \<Rightarrow> string \<Rightarrow> snapshot \<Rightarrow> kwargs \<Rightarrow> val \<Rightarrow> error + loaded" where
  "resurrect E fs efn S kw vb =
     ebind (decide_mutation (snap_go_params S) (snap_config_struct S) kw)
       (\<lambda>MUTATED.
          let filled = backfill (go_params_default E) (config_struct_default E)
                         (snap_go_params S) (snap_config_struct S) kw
          in Inr \<lparr>l_ExistentialFileName = Some efn,
                  l_MutatedFromTelescopeFile =
                    Some (case snap_MutatedFromTelescopeFile S of Some m \<Rightarrow> m | None \<Rightarrow> None),
                  l_go_params = fst filled,
                  l_config_struct = snd filled,
                  l_source_coverage = snapshot_coverage E fs efn S,
                  l_tile_struct = snapshot_tile_struct S,
                  l_MUTATED = MUTATED,
                  l_kwargs = kw,
                  l_verbose = vb\<rparr>)"

text \<open>Lines 172--179: no save file, the defaults are taken.\<close>

definition fresh :: "env \<Rightarrow> string option \<Rightarrow> kwargs \<Rightarrow> val \<Rightarrow> loaded" where
  "fresh E efn kw vb =
     \<lparr>l_ExistentialFileName = efn,
      l_MutatedFromTelescopeFile = None,
      l_go_params = go_params_default E,
      l_config_struct = config_struct_default E,
      l_source_coverage = None,
      l_tile_struct = None,
      l_MUTATED = False,
      l_kwargs = kw,
      l_verbose = vb\<rparr>"

definition init_load :: "env \<Rightarrow> fsys \<Rightarrow> kwargs \<Rightarrow> error + loaded" where
  "init_load E fs kwargs0 =
     (let vb = (case map_of kwargs0 ''verbose'' of Some v \<Rightarrow> v | None \<Rightarrow> VBool True)
      in ebind (fix_NewExistentialFileName E (kw_del kwargs0 ''verbose''))
           (\<lambda>kw.
              case map_of kw ''ExistentialFileName'' of
                None \<Rightarrow> Inr (fresh E None kw vb)
              | Some v \<Rightarrow>
                  ebind (as_str v)
                    (\<lambda>p.
                       let efn = (if mkdir_ok E (dirname p) then p else under_SYNEX E p);
                           kw' = kw_del kw ''ExistentialFileName''
                       in (case fs efn of
                             None \<Rightarrow> Inr (fresh E (Some efn) kw' vb)
                           | Some (SaveFile S) \<Rightarrow> resurrect E fs efn S kw' vb
                           | Some other \<Rightarrow> Inl (UnpicklingError efn)))))"

subsection \<open>File names (lines 181--261)\<close>

text \<open>
  Lines 195--200: the default tesselation file. The test of line 196 reads
  \<^verbatim>\<open>kwargs\<close>, from which line 99 has deleted \<^verbatim>\<open>ExistentialFileName\<close>.
\<close>

definition default_tesselationFile :: "env \<Rightarrow> kwargs \<Rightarrow> dict \<Rightarrow> error + dict" where
  "default_tesselationFile E kw cfg =
     ebind (getitem cfg ''tesselationFile'')
       (\<lambda>tf.
          if py_eq tf VNone then
            (case map_of kw ''ExistentialFileName'' of
               Some v \<Rightarrow>
                 ebind (as_str v)
                   (\<lambda>p. Inr (cfg(''tesselationFile'' \<mapsto>
                               VStr (with_ext (SYNEX_PATH E @ ''/gwemopt_tess_files''
                                               @ last (py_split ''Saved_Telescope_Dicts'' p))
                                       ''.tess''))))
             | None \<Rightarrow>
                 ebind (ebind (getitem cfg ''telescope'') path_operand)
                   (\<lambda>name. Inr (cfg(''tesselationFile'' \<mapsto>
                                  VStr (SYNEX_PATH E @ ''/gwemopt_tess_files/'' @ name @ ''.tess'')))))
          else Inr cfg)"

text \<open>
  Lines 203--225 for the tesselation file and 237--258 for the orbit file: the same
  three branches, on the keys \<open>key\<close> and \<open>newkey\<close>, the directory \<open>dir\<close> and the
  extension \<open>ext\<close>.
\<close>

definition retarget ::
  "env \<Rightarrow> fsys \<Rightarrow> bool \<Rightarrow> kwargs \<Rightarrow> string \<Rightarrow> string \<Rightarrow> string \<Rightarrow> string \<Rightarrow> dict \<Rightarrow> error + dict" where
  "retarget E fs MUTATED kw key newkey dir ext cfg =
     (if \<not> MUTATED then Inr cfg
      else
        ebind (ebind (getitem cfg key) path_operand)
          (\<lambda>p.
             if \<not> isfile fs p then Inr cfg
             else
               (case map_of kw newkey of
                  Some nv \<Rightarrow> Inr (cfg(key \<mapsto> nv))
                | None \<Rightarrow>
                    (case map_of kw ''NewExistentialFileName'' of
                       Some nef \<Rightarrow>
                         ebind (as_str nef)
                           (\<lambda>n. Inr (cfg(key \<mapsto>
                                       VStr (with_ext (SYNEX_PATH E @ dir
                                                       @ last (py_split ''Saved_Telescope_Dicts'' n))
                                               ext))))
                     | None \<Rightarrow>
                         (case version_path fs p of
                            None \<Rightarrow> Inl NoReturn
                          | Some p' \<Rightarrow> Inr (cfg(key \<mapsto> VStr p')))))))"

text \<open>Lines 228--236. Which of two exceptions of this block comes first is not tracked.\<close>

definition default_orbitFile :: "env \<Rightarrow> dict \<Rightarrow> error + dict" where
  "default_orbitFile E cfg =
     ebind (getitem cfg ''orbitFile'')
       (\<lambda>v. if \<not> truthy v then
               ebind (orbit_file_name E cfg)
                 (\<lambda>name.
                    ebind (mkdir_p E (SYNEX_PATH E @ ''/orbit_files/''))
                      (\<lambda>u. Inr (cfg(''orbitFile'' \<mapsto>
                                  VStr (SYNEX_PATH E @ ''/orbit_files/'' @ name)))))
             else Inr cfg)"

definition init_paths :: "env \<Rightarrow> fsys \<Rightarrow> loaded \<Rightarrow> error + dict \<times> dict \<times> bool" where
  "init_paths E fs L =
     (let merged = merge_kwargs (l_go_params L) (l_config_struct L) False (l_kwargs L) in
      ebind (default_tesselationFile E (l_kwargs L) (fst (snd merged)))
        (\<lambda>cfg1.
           ebind (retarget E fs (l_MUTATED L) (l_kwargs L) ''tesselationFile''
                    ''NewtesselationFile'' ''/gwemopt_tess_files'' ''.tess'' cfg1)
             (\<lambda>cfg2.
                ebind (default_orbitFile E cfg2)
                  (\<lambda>cfg3.
                     ebind (retarget E fs (l_MUTATED L) (l_kwargs L) ''orbitFile''
                              ''NeworbitFile'' ''/orbit_files'' ''.dat'' cfg3)
                       (\<lambda>cfg4.
                          ebind (GWEMOPTPathChecks E (fst merged) cfg4)
                            (\<lambda>checked. Inr (fst checked, snd checked, snd (snd merged))))))))"

subsection \<open>The orbit (lines 263--275)\<close>

definition init_orbit :: "env \<Rightarrow> fsys \<Rightarrow> bool \<Rightarrow> bool \<Rightarrow> dict \<Rightarrow> error + dict \<times> fsys" where
  "init_orbit E fs permission MUTATED cfg =
     ebind (ebind (getitem cfg ''orbitFile'') path_operand)
       (\<lambda>p.
          let SAVETOFILE =
                (if \<not> permission then False
                 else if MUTATED \<or> \<not> isfile fs p then True
                 else False)
          in ebind (mkdir_p E (dirname p)) (\<lambda>u. get_telescope_orbit E cfg SAVETOFILE fs))"

subsection \<open>The attributes and the save file (lines 277--340)\<close>

text \<open>
  Lines 297--300 give the save file its default name, lines 303--322 rename it after
  a mutation, lines 280--294 void the coverage and the tile structure after a
  mutation, line 333 computes the tesselation and saves.
\<close>

definition default_ExistentialFileName :: "env \<Rightarrow> loaded \<Rightarrow> dict \<Rightarrow> error + string" where
  "default_ExistentialFileName E L cfg =
     (case l_ExistentialFileName L of
        Some f \<Rightarrow> Inr f
      | None \<Rightarrow>
          ebind (ebind (getitem cfg ''tesselationFile'') as_str)
            (\<lambda>tf. Inr (with_ext (SYNEX_PATH E @ ''/Saved_Telescope_Dicts''
                                  @ last (py_split ''gwemopt_tess_files'' tf)) ''.dat'')))"

definition mutated_ExistentialFileName :: "fsys \<Rightarrow> loaded \<Rightarrow> string \<Rightarrow> error + string" where
  "mutated_ExistentialFileName fs L efn =
     (if l_MUTATED L then
        (case map_of (l_kwargs L) ''NewExistentialFileName'' of
           Some nv \<Rightarrow> as_str nv
         | None \<Rightarrow> (case version_path fs efn of None \<Rightarrow> Inl NoReturn | Some p \<Rightarrow> Inr p))
      else Inr efn)"

definition init_finish :: "env \<Rightarrow> fsys \<Rightarrow> loaded \<Rightarrow> dict \<Rightarrow> dict \<Rightarrow> error + athena \<times> fsys" where
  "init_finish E fs L go cfg =
     ebind (default_ExistentialFileName E L cfg)
       (\<lambda>efn0.
          ebind (mutated_ExistentialFileName fs L efn0)
            (\<lambda>efn.
               ebind (mkdir_p E (dirname efn))
                 (\<lambda>u.
                    ebind
                      (ComputeTesselation E
                         \<lparr>verbose = l_verbose L,
                          PermissionToWrite = (\<not> use_mpi E),
                          ExistentialFileName = efn,
                          MutatedFromTelescopeFile =
                            (if l_MUTATED L then Some (Some efn0)
                             else l_MutatedFromTelescopeFile L),
                          telescope_go_params = go,
                          telescope_config_struct = cfg,
                          telescope_source_coverage =
                            (if l_MUTATED L then None else l_source_coverage L),
                          telescope_tile_struct =
                            (if l_MUTATED L then None else l_tile_struct L),
                          ARF_file_loc_name = None\<rparr>
                         fs)
                      (\<lambda>r. Inr ((fst r)\<lparr>ARF_file_loc_name :=
                                   Some (SYNEX_PATH E @ ''/XIFU_CC_BASELINECONF_2018_10_10.arf'')\<rparr>,
                                snd r)))))"

definition init_from :: "env \<Rightarrow> fsys \<Rightarrow> loaded \<Rightarrow> error + athena \<times> fsys" where
  "init_from E fs L =
     ebind (init_paths E fs L)
       (\<lambda>paths.
          ebind (init_orbit E fs (\<not> use_mpi E) (l_MUTATED L) (fst (snd paths)))
            (\<lambda>orb. init_finish E (snd orb) L (fst paths) (fst orb)))"

definition init :: "env \<Rightarrow> fsys \<Rightarrow> kwargs \<Rightarrow> error + athena \<times> fsys" where
  "init E fs kwargs0 = ebind (init_load E fs kwargs0) (init_from E fs)"

text \<open>
  A save file on disk, with a coverage and a tile structure, and the local variables
  of \<^verbatim>\<open>__init__\<close> after it has been loaded under an empty overlay.
\<close>

definition demo_coverage :: coverage where
  "demo_coverage = \<lparr>source_JsonFile = None, source_H5File = None, source_save_file = None,
                     coverage_rest = VObj 7\<rparr>"

definition demo_snapshot :: snapshot where
  "demo_snapshot =
     \<lparr>snap_go_params = [''doSingleExposure'' \<mapsto> VBool False, ''tilesType'' \<mapsto> VStr ''moc'',
                         ''Tobs'' \<mapsto> VArr [0, 1]],
      snap_config_struct =
        [''tesselationFile'' \<mapsto> VStr ''/home/u/SYNEX/gwemopt_tess_files/Athena.tess'',
         ''orbitFile'' \<mapsto> VStr ''/home/u/SYNEX/orbit_files/Athena_orbit.dat'',
         ''FOV_type'' \<mapsto> VStr ''circle'', ''exposuretime'' \<mapsto> VNum 10000,
         ''magnitude'' \<mapsto> VNum 20],
      snap_source_coverage = Some (Some demo_coverage),
      snap_tile_struct = Some (Some (VObj 5)),
      snap_MutatedFromTelescopeFile = None\<rparr>"

definition demo_fs :: fsys where
  "demo_fs = [''/home/u/SYNEX/Saved_Telescope_Dicts/Athena.dat'' \<mapsto> SaveFile demo_snapshot]"

definition demo_loaded :: loaded where
  "demo_loaded =
     \<lparr>l_ExistentialFileName = Some ''/home/u/SYNEX/Saved_Telescope_Dicts/Athena.dat'',
      l_MutatedFromTelescopeFile = Some None,
      l_go_params = snap_go_params demo_snapshot,
      l_config_struct = snap_config_struct demo_snapshot,
      l_source_coverage = Some demo_coverage,
      l_tile_struct = Some (VObj 5),
      l_MUTATED = False,
      l_kwargs = [],
      l_verbose = VBool False\<rparr>"

text \<open>
  The same save file loaded under the overlay \<^verbatim>\<open>Tobs = [0, 2]\<close>, \<^verbatim>\<open>tilesType = "moc"\<close>:
  two keys, of which \<^verbatim>\<open>Tobs\<close> differs from the saved array. \<open>demo_go_mutated\<close> is the
  operational mapping after the merge of lines 183--192.
\<close>

definition demo_overlay :: kwargs where
  "demo_overlay = [(''Tobs'', VArr [0, 2]), (''tilesType'', VStr ''moc'')]"

definition demo_mutated :: loaded where
  "demo_mutated =
     \<lparr>l_ExistentialFileName = Some ''/home/u/SYNEX/Saved_Telescope_Dicts/Athena.dat'',
      l_MutatedFromTelescopeFile = Some None,
      l_go_params = snap_go_params demo_snapshot,
      l_config_struct = snap_config_struct demo_snapshot,
      l_source_coverage = Some demo_coverage,
      l_tile_struct = Some (VObj 5),
      l_MUTATED = True,
      l_kwargs = demo_overlay,
      l_verbose = VBool False\<rparr>"

definition demo_go_mutated :: dict where
  "demo_go_mutated =
     (snap_go_params demo_snapshot)(''Tobs'' \<mapsto> VArr [0, 2], ''tilesType'' \<mapsto> VStr ''moc'')"

text \<open>The physical configuration after a construction from the defaults.\<close>

definition mpi_cfg :: dict where
  "mpi_cfg = (config_struct_default (demo_env True))
               (''tesselationFile'' \<mapsto> VStr ''/home/u/SYNEX/gwemopt_tess_files/Athena.tess'',
                ''orbitFile'' \<mapsto> VStr ''/home/u/SYNEX/orbit_files/Athena_orbit.dat'')"

section \<open>Properties\<close>

subsection \<open>Strings\<close>

lemma py_split_not_Nil: "py_split sep s \<noteq> []"
  by (induction sep s rule: py_split.induct) (auto split: list.splits)

lemma split_char_nosep: "c \<notin> set s \<Longrightarrow> py_split [c] s = [s]"
  by (induction s) auto

lemma split_char_append:
  "c \<notin> set s \<Longrightarrow> py_split [c] (X @ c # s) = py_split [c] X @ [s]"
proof (induction X)
  case Nil
  then show ?case by (simp add: split_char_nosep)
next
  case (Cons x X)
  obtain p ps where ps: "py_split [c] X = p # ps"
    by (cases "py_split [c] X") (simp_all add: py_split_not_Nil)
  from Cons ps show ?case by simp
qed

lemma join_split_char: "py_join [c] (py_split [c] X) = X"
proof (induction X)
  case Nil
  then show ?case by simp
next
  case (Cons x X)
  obtain p ps where ps: "py_split [c] X = p # ps"
    by (cases "py_split [c] X") (simp_all add: py_split_not_Nil)
  show ?case
  proof (cases "x = c")
    case True
    with Cons ps show ?thesis by simp
  next
    case False
    with Cons ps show ?thesis by (cases ps) simp_all
  qed
qed

lemma last_split_dot:
  "CHR ''.'' \<notin> set ext \<Longrightarrow> last (py_split ''.'' (X @ ''.'' @ ext)) = ext"
  using split_char_append [of "CHR ''.''" ext X] by simp

lemma butlast_split_dot:
  "CHR ''.'' \<notin> set ext \<Longrightarrow> py_join ''.'' (butlast (py_split ''.'' (X @ ''.'' @ ext))) = X"
  using split_char_append [of "CHR ''.''" ext X] join_split_char [of "CHR ''.''" X] by simp

lemma butlast_split_us:
  "CHR ''_'' \<notin> set s \<Longrightarrow> py_join ''_'' (butlast (py_split ''_'' (X @ ''_'' @ s))) = X"
  using split_char_append [of "CHR ''_''" s X] join_split_char [of "CHR ''_''" X] by simp

lemma digit_char_in: "digit_char n \<in> set ''0123456789''"
  unfolding digit_char_def by (rule nth_mem) simp

lemma str_nat_digits: "set (str_nat n) \<subseteq> set ''0123456789''"
proof (induction n rule: str_nat.induct)
  case (1 n)
  show ?case
  proof (cases "n < 10")
    case True
    then have "str_nat n = [digit_char n]" by (subst str_nat.simps) simp
    then show ?thesis using digit_char_in [of n] by simp
  next
    case False
    then have e: "str_nat n = str_nat (n div 10) @ [digit_char (n mod 10)]"
      by (subst str_nat.simps) simp
    have "set (str_nat (n div 10)) \<subseteq> set ''0123456789''" using 1 False by simp
    then show ?thesis using digit_char_in [of "n mod 10"] unfolding e by simp
  qed
qed

lemma str_nat_is_digit: "c \<in> set (str_nat n) \<Longrightarrow> is_digit c"
  using str_nat_digits [of n] unfolding is_digit_def by (rule subsetD)

lemma str_int_chars: "c \<in> set (str_int i) \<Longrightarrow> c = CHR ''-'' \<or> is_digit c"
  by (cases "i < 0") (auto simp: str_int_def dest: str_nat_is_digit)

lemma str_int_no_us: "CHR ''_'' \<notin> set (str_int i)"
proof
  assume "CHR ''_'' \<in> set (str_int i)"
  from str_int_chars [OF this] show False by (simp add: is_digit_def)
qed

lemma str_int_no_dot: "CHR ''.'' \<notin> set (str_int i)"
proof
  assume "CHR ''.'' \<in> set (str_int i)"
  from str_int_chars [OF this] show False by (simp add: is_digit_def)
qed

lemma str_int_1: "str_int 1 = ''1''"
  by (simp add: str_int_def digit_char_def str_nat.simps)

lemma str_int_2: "str_int 2 = ''2''"
  by (simp add: str_int_def digit_char_def str_nat.simps)

lemma str_int_3: "str_int 3 = ''3''"
  by (simp add: str_int_def digit_char_def str_nat.simps)

subsection \<open>File-name versioning\<close>

lemma version_next_versioned:
  assumes "CHR ''_'' \<notin> set ext" "CHR ''.'' \<notin> set ext"
  shows "version_next n (versioned X k ext) = versioned X n ext"
proof -
  have a: "CHR ''_'' \<notin> set (str_int k @ ''.'' @ ext)"
    using assms str_int_no_us [of k] by simp
  have "py_join ''_'' (butlast (py_split ''_'' (X @ ''_'' @ (str_int k @ ''.'' @ ext)))) = X"
    by (rule butlast_split_us [OF a])
  moreover have "last (py_split ''.'' ((X @ ''_'' @ str_int k) @ ''.'' @ ext)) = ext"
    by (rule last_split_dot [OF assms(2)])
  ultimately show ?thesis by (simp add: version_next_def versioned_def)
qed

text \<open>
  The loop, started at version \<open>k\<close> with the versions \<open>k..N\<close> on disk and \<open>N + 1\<close>
  free, returns version \<open>N + 1\<close>: induction on the number of probes left.
\<close>

lemma version_probe_run:
  assumes us: "CHR ''_'' \<notin> set ext" and dot: "CHR ''.'' \<notin> set ext"
    and ex: "\<forall>j. k \<le> j \<and> j \<le> N \<longrightarrow> isfile fs (versioned X j ext)"
    and nex: "\<not> isfile fs (versioned X (N + 1) ext)"
    and le: "k \<le> N + 1"
  shows "version_probe fs k (versioned X k ext) = Some (versioned X (N + 1) ext)"
  using ex le
proof (induction "nat (N + 1 - k)" arbitrary: k)
  case 0
  then have "k = N + 1" by simp
  with nex show ?case by (subst version_probe.simps) simp
next
  case (Suc d)
  then have kN: "k \<le> N" by linarith
  with Suc.prems have here: "isfile fs (versioned X k ext)" by simp
  have d: "d = nat (N + 1 - (k + 1))" using Suc.hyps(2) by linarith
  have "version_probe fs (k + 1) (versioned X (k + 1) ext) = Some (versioned X (N + 1) ext)"
    using Suc.hyps(1) [OF d] Suc.prems(1) kN by simp
  with here show ?case
    by (subst version_probe.simps) (simp add: version_next_versioned [OF us dot])
qed

lemma version_start_fresh:
  assumes "py_int (hd (py_split ''.'' (last (py_split ''_'' (X @ ''.'' @ ext))))) = None"
    and "CHR ''.'' \<notin> set ext"
  shows "version_start (X @ ''.'' @ ext) = (1, versioned X 1 ext)"
  using assms(1) last_split_dot [OF assms(2), of X] butlast_split_dot [OF assms(2), of X]
  by (simp add: version_start_def versioned_def str_int_1)

text \<open>
  When the path already carries an integer suffix \<open>n\<close>, nothing is inserted and the
  probing starts from \<open>n\<close> (the comment in the source: "Does it already have an extension
  number? If so, start there...").
\<close>

lemma version_start_suffixed:
  "py_int (hd (py_split ''.'' (last (py_split ''_'' p)))) = Some n \<Longrightarrow> version_start p = (n, p)"
  by (simp add: version_start_def)

text \<open>
  Claim C4, as amended. Let the piece of \<open>X.ext\<close> after its last underscore, up to the
  first dot, not be an integer (so the path carries no version yet), and let \<open>ext\<close>
  contain neither an underscore nor a dot. If the versions \<open>X_1.ext\<close> to \<open>X_N.ext\<close> are
  all files and \<open>X_(N+1).ext\<close> is not, the versioning first inserts \<open>_1\<close> and then
  returns \<open>X_(N+1).ext\<close>; in particular it returns, and no exception escapes the parse
  of the suffix.
\<close>

theorem version_path_next_free:
  assumes "py_int (hd (py_split ''.'' (last (py_split ''_'' (X @ ''.'' @ ext))))) = None"
    and "CHR ''_'' \<notin> set ext" and "CHR ''.'' \<notin> set ext"
    and "\<forall>j. 1 \<le> j \<and> j \<le> N \<longrightarrow> isfile fs (X @ ''_'' @ str_int j @ ''.'' @ ext)"
    and "\<not> isfile fs (X @ ''_'' @ str_int (N + 1) @ ''.'' @ ext)"
    and "0 \<le> N"
  shows "version_start (X @ ''.'' @ ext) = (1, X @ ''_1.'' @ ext)
       \<and> version_path fs (X @ ''.'' @ ext) = Some (X @ ''_'' @ str_int (N + 1) @ ''.'' @ ext)"
proof -
  have s: "version_start (X @ ''.'' @ ext) = (1, versioned X 1 ext)"
    by (rule version_start_fresh [OF assms(1) assms(3)])
  have "version_probe fs 1 (versioned X 1 ext) = Some (versioned X (N + 1) ext)"
    using assms by (intro version_probe_run) (simp_all add: versioned_def)
  with s show ?thesis by (simp add: version_path_def versioned_def str_int_1)
qed

theorem version_path_next_free_witness:
  "version_path
     (map_of [(''/s/Athena_base.tess'', OtherFile), (''/s/Athena_base_1.tess'', OtherFile),
              (''/s/Athena_base_2.tess'', OtherFile)])
     ''/s/Athena_base.tess'' = Some ''/s/Athena_base_3.tess''"
proof -
  let ?fs = "map_of [(''/s/Athena_base.tess'', OtherFile), (''/s/Athena_base_1.tess'', OtherFile),
                     (''/s/Athena_base_2.tess'', OtherFile)]"
  have p: "py_int (hd (py_split ''.'' (last (py_split ''_'' (''/s/Athena_base'' @ ''.'' @ ''tess''))))) = None"
    by (simp add: py_int_def py_strip_def py_isspace_def is_digit_def)
  have e: "\<forall>j. 1 \<le> j \<and> j \<le> 2 \<longrightarrow> isfile ?fs (''/s/Athena_base'' @ ''_'' @ str_int j @ ''.'' @ ''tess'')"
  proof (intro allI impI)
    fix j :: int
    assume "1 \<le> j \<and> j \<le> 2"
    then have "j = 1 \<or> j = 2" by linarith
    then show "isfile ?fs (''/s/Athena_base'' @ ''_'' @ str_int j @ ''.'' @ ''tess'')"
      by (auto simp: isfile_def str_int_1 str_int_2)
  qed
  have n: "\<not> isfile ?fs (''/s/Athena_base'' @ ''_'' @ str_int (2 + 1) @ ''.'' @ ''tess'')"
    by (simp add: isfile_def str_int_3)
  show ?thesis
    using version_path_next_free [of "''/s/Athena_base''" "''tess''" 2 ?fs, OF p _ _ e n]
    by (simp add: str_int_3)
qed

text \<open>
  Claim C4 as it is written fails when the name \<open>X\<close> itself ends in an integer suffix:
  with \<open>a_5.dat\<close> on disk and no version of it, the claim promises \<open>a_5_1.dat\<close>, and
  the code continues the numbering of \<open>a\<close> and returns \<open>a_6.dat\<close>.
\<close>

theorem version_path_suffix_counterexample:
  "isfile (map_of [(''a_5.dat'', OtherFile)]) (''a_5'' @ ''.'' @ ''dat'')
   \<and> \<not> isfile (map_of [(''a_5.dat'', OtherFile)]) (''a_5'' @ ''_'' @ str_int (0 + 1) @ ''.'' @ ''dat'')
   \<and> version_path (map_of [(''a_5.dat'', OtherFile)]) (''a_5'' @ ''.'' @ ''dat'') = Some ''a_6.dat''
   \<and> ''a_6.dat'' \<noteq> ''a_5'' @ ''_'' @ str_int (0 + 1) @ ''.'' @ ''dat''"
proof -
  have t1: "version_start ''a_5.dat'' = (5, ''a_5.dat'')"
    by (simp add: version_start_def py_int_def py_strip_def py_isspace_def is_digit_def
        nat_of_digits_def digit_val_def)
  have t2: "version_next 6 ''a_5.dat'' = ''a_6.dat''"
    by (simp add: version_next_def str_int_def digit_char_def str_nat.simps)
  have "version_probe (map_of [(''a_5.dat'', OtherFile)]) 6 ''a_6.dat'' = Some ''a_6.dat''"
    by (subst version_probe.simps) (simp add: isfile_def)
  then have "version_probe (map_of [(''a_5.dat'', OtherFile)]) 5 ''a_5.dat'' = Some ''a_6.dat''"
    by (subst version_probe.simps) (simp add: isfile_def t2)
  then show ?thesis by (simp add: version_path_def t1 isfile_def str_int_1)
qed

subsection \<open>The mutation decision\<close>

lemma py_any_append: "py_any (xs @ ys) = (py_any xs \<or> py_any ys)"
  by (simp add: py_any_def list_ex_iff) blast

lemma py_any_ValueCheck:
  "py_any (ValueCheck d kw) = list_ex (\<lambda>kv. fst kv \<noteq> ''Tobs'' \<and> differs_in d kv) kw"
proof (induction kw)
  case Nil
  then show ?case by (simp add: py_any_def ValueCheck_def)
next
  case (Cons kv kw)
  obtain key v where kv: "kv = (key, v)" by (cases kv)
  have "ValueCheck d (kv # kw)
        = (case d key of None \<Rightarrow> [] | Some old \<Rightarrow> if key = ''Tobs'' then [] else [py_ne v old])
          @ ValueCheck d kw"
    by (simp add: ValueCheck_def kv)
  moreover have "py_any (case d key of None \<Rightarrow> []
                   | Some old \<Rightarrow> if key = ''Tobs'' then [] else [py_ne v old])
             = (key \<noteq> ''Tobs'' \<and> differs_in d (key, v))"
    by (simp add: py_any_def differs_in_def split: option.splits)
  ultimately show ?case using Cons by (simp add: py_any_append kv)
qed

lemma py_any_KeysCheck:
  "py_any (KeysCheck go cfg kw) = list_ex (\<lambda>kv. go (fst kv) = None \<and> cfg (fst kv) = None) kw"
  by (induction kw) (auto simp: py_any_def KeysCheck_def)

lemma py_any_checks:
  "py_any (ValueCheck go kw @ ValueCheck cfg kw @ KeysCheck go cfg kw)
   = (list_ex (\<lambda>kv. fst kv \<noteq> ''Tobs'' \<and> (differs_in go kv \<or> differs_in cfg kv)) kw
      \<or> list_ex (\<lambda>kv. go (fst kv) = None \<and> cfg (fst kv) = None) kw)"
proof -
  have "list_ex (\<lambda>kv. fst kv \<noteq> ''Tobs'' \<and> (differs_in go kv \<or> differs_in cfg kv)) kw
        = (list_ex (\<lambda>kv. fst kv \<noteq> ''Tobs'' \<and> differs_in go kv) kw
           \<or> list_ex (\<lambda>kv. fst kv \<noteq> ''Tobs'' \<and> differs_in cfg kv) kw)"
    by (simp add: list_ex_iff) blast
  then show ?thesis
    by (simp add: py_any_append py_any_ValueCheck py_any_KeysCheck)
qed

text \<open>
  With the new-identity directive, or with at least two overlay keys, the code decides
  exactly what claim C1 says (when \<^verbatim>\<open>Tobs\<close> is overlaid it must be a saved operational
  parameter, otherwise line 156 raises \<^verbatim>\<open>KeyError\<close>).
\<close>

lemma decide_mutation_two_keys:
  assumes "kw_in ''NewExistentialFileName'' kw \<or> 1 < length kw"
    and "kw_in ''Tobs'' kw \<longrightarrow> go ''Tobs'' \<noteq> None \<or> kw_in ''NewExistentialFileName'' kw"
  shows "decide_mutation go cfg kw = Inr (spec_mutated go cfg kw)"
proof (cases "kw_in ''NewExistentialFileName'' kw")
  case True
  then show ?thesis by (simp add: decide_mutation_def spec_mutated_def)
next
  case False
  with assms have len: "1 < length kw" by simp
  show ?thesis
  proof (cases "map_of kw ''Tobs''")
    case None
    with False len show ?thesis
      by (simp add: decide_mutation_def spec_mutated_def py_any_checks)
  next
    case (Some new)
    with assms(2) False obtain old where old: "go ''Tobs'' = Some old"
      by (auto simp: kw_in_def)
    with Some False len show ?thesis
      by (simp add: decide_mutation_def spec_mutated_def py_any_checks)
  qed
qed

text \<open>
  Claim C1: the decision is true exactly when the overlay carries the new-identity
  directive, or changes a saved value, or changes \<^verbatim>\<open>Tobs\<close>, or brings a key of neither
  mapping. The code breaks this for an overlay of a single key: the guard
  \<^verbatim>\<open>len(kwargs.keys())>1\<close> of line 151 skips every comparison, although
  \<^verbatim>\<open>ExistentialFileName\<close> was already deleted from \<^verbatim>\<open>kwargs\<close> on line 99. Resurrecting
  a snapshot saved with \<^verbatim>\<open>Tobs = [0, 1]\<close> under the overlay \<^verbatim>\<open>Tobs = [0, 2]\<close> leaves
  \<^verbatim>\<open>MUTATED\<close> false, where the claim's condition holds.
\<close>

theorem decide_mutation_single_key:
  "decide_mutation [''Tobs'' \<mapsto> VArr [0, 1]] Map.empty [(''Tobs'', VArr [0, 2])] = Inr False
   \<and> spec_mutated [''Tobs'' \<mapsto> VArr [0, 1]] Map.empty [(''Tobs'', VArr [0, 2])]"
  by (simp add: decide_mutation_def spec_mutated_def kw_in_def array_equal_def)

subsection \<open>The merge of the overlay\<close>

text \<open>A key of a schema overwrites that mapping's value, the operational one first.\<close>

lemma merge_known_go:
  "go key \<noteq> None \<Longrightarrow> merge_kwargs go cfg r [(key, v)] = (go(key \<mapsto> v), cfg, r)"
  by simp

lemma merge_known_cfg:
  "go key = None \<Longrightarrow> cfg key \<noteq> None \<Longrightarrow> merge_kwargs go cfg r [(key, v)] = (go, cfg(key \<mapsto> v), r)"
  by simp

text \<open>Any other key, the two excluded directives apart, is stored in the
  physical-config mapping and sets \<^verbatim>\<open>print_reminder\<close>.\<close>

lemma merge_unknown:
  "go key = None \<Longrightarrow> cfg key = None \<Longrightarrow> key \<noteq> ''NewExistentialFileName''
   \<Longrightarrow> key \<noteq> ''NeworbitFile''
   \<Longrightarrow> merge_kwargs go cfg r [(key, v)] = (go, cfg(key \<mapsto> v), True)"
  by simp

text \<open>The directives \<^verbatim>\<open>NewExistentialFileName\<close> and \<^verbatim>\<open>NeworbitFile\<close> are never added
  to a mapping that does not hold them already.\<close>

lemma merge_reserved_not_stored:
  assumes "k \<in> set [''NewExistentialFileName'', ''NeworbitFile'']" "go k = None" "cfg k = None"
  shows "fst (merge_kwargs go cfg r kw) k = None \<and> fst (snd (merge_kwargs go cfg r kw)) k = None"
  using assms(2,3)
proof (induction kw arbitrary: go cfg r)
  case Nil
  then show ?case by simp
next
  case (Cons kv kw)
  obtain key v where kv: "kv = (key, v)" by (cases kv)
  show ?case
  proof (cases "key = k")
    case True
    with Cons assms(1) kv show ?thesis by simp
  next
    case False
    with Cons kv show ?thesis by simp
  qed
qed

text \<open>
  Claim C7: none of the three reserved directives is ever stored as a schema overlay.
  The exclusion list of line 189 names \<^verbatim>\<open>NewExistentialFileName\<close> and \<^verbatim>\<open>NeworbitFile\<close>
  only; \<^verbatim>\<open>NewtesselationFile\<close>, which line 204 reads as a directive, is missing from it.
  So the third directive is stored in the physical-config mapping, and it sets
  \<^verbatim>\<open>print_reminder\<close> like an unknown key.
\<close>

theorem merge_stores_NewtesselationFile:
  "merge_kwargs [''tilesType'' \<mapsto> VStr ''moc''] [''tesselationFile'' \<mapsto> VNone] False
     [(''NewtesselationFile'', VStr ''/x/new.tess'')]
   = ([''tilesType'' \<mapsto> VStr ''moc''],
      [''tesselationFile'' \<mapsto> VNone, ''NewtesselationFile'' \<mapsto> VStr ''/x/new.tess''], True)"
  by simp

subsection \<open>GetKuiper\<close>

text \<open>
  Claim C10. \<^verbatim>\<open>LISAPosteriorDataFile\<close> is bound neither in the function nor at module
  level, so when no built-in has that name every call that reaches line 397 raises
  \<^verbatim>\<open>NameError\<close>, and no call at all returns: the failures before line 397 (the
  pickle file cannot be read, the key \<^verbatim>\<open>LISA Data File\<close> is missing) are exceptions
  too. No trace and no summary is ever produced.
\<close>

theorem GetKuiper_NameError:
  assumes "''LISAPosteriorDataFile'' \<notin> set (builtins K)"
  shows "(\<forall>r. GetKuiper K fs T_lat_attr TilePickleFile source_arg \<noteq> Inr r)
       \<and> (\<forall>TileDict H5. fs TilePickleFile = Some (TileFile TileDict)
             \<longrightarrow> LISA_Data_File TileDict = Some H5
             \<longrightarrow> GetKuiper K fs T_lat_attr TilePickleFile source_arg
                 = Inl (NameError ''LISAPosteriorDataFile''))"
proof -
  have g: "load_global K ''LISAPosteriorDataFile'' = Inl (NameError ''LISAPosteriorDataFile'')"
    using assms by (simp add: load_global_def module_globals_def)
  show ?thesis
    by (auto simp: GetKuiper_def g ebind_def split: option.splits fentry.splits)
qed

theorem GetKuiper_NameError_witness:
  "GetKuiper (demo_kuiper_env 1) [''/d/tiles.dat'' \<mapsto> TileFile demo_tiledict,
                                 ''/d/run.json'' \<mapsto> JsonFile (Some (-100))]
     (Some 10) ''/d/tiles.dat'' (Some demo_source)
   = Inl (NameError ''LISAPosteriorDataFile'')"
proof -
  have b: "''LISAPosteriorDataFile'' \<notin> set (builtins (demo_kuiper_env 1))"
    by (simp add: demo_kuiper_env_def)
  have l: "LISA_Data_File demo_tiledict = Some (VStr ''/d/run.h5'')"
    by (simp add: demo_tiledict_def)
  show ?thesis
    using GetKuiper_NameError [OF b, of "[''/d/tiles.dat'' \<mapsto> TileFile demo_tiledict,
                                 ''/d/run.json'' \<mapsto> JsonFile (Some (-100))]" "Some 10" "''/d/tiles.dat''" "Some demo_source"] l
    by simp
qed





text \<open>Lines 504--532 append to no trace; lines 536--546 append one record to each.\<close>

lemma expose_traces:
  "expose K tm pm k s = Inr s' \<Longrightarrow> trace_lengths s' = trace_lengths s"
  by (auto simp: expose_def Let_def trace_lengths_def split: sum.splits prod.splits if_splits)

lemma expose_bound:
  "expose K tm pm k s = Inr s' \<Longrightarrow> detection_p_val s' \<noteq> None \<and> tile_detection_p_val s' \<noteq> None"
  by (auto simp: expose_def Let_def split: sum.splits prod.splits if_splits)

lemma trace_append_lengths:
  "trace_append T s = Inr s' \<Longrightarrow> trace_lengths s' = map Suc (trace_lengths s)"
  by (auto simp: trace_append_def Let_def trace_lengths_def split: option.splits)

lemma trace_append_bound:
  "trace_append T s = Inr s' \<Longrightarrow>
   detection_p_val s' = detection_p_val s \<and> tile_detection_p_val s' = tile_detection_p_val s"
  by (auto simp: trace_append_def Let_def split: option.splits)

lemma tile_step_lengths:
  "tile_step K src T tm pm kt s = Inr s' \<Longrightarrow> trace_lengths s' = map Suc (trace_lengths s)"
  by (auto simp: tile_step_def split: if_splits sum.splits
           dest!: expose_traces trace_append_lengths)

text \<open>A run that returns has appended one record per tile to every trace.\<close>

lemma kuiper_loop_lengths:
  "kuiper_loop K src T tm pm tiles s = Inr s' \<Longrightarrow>
   trace_lengths s' = map (\<lambda>n. n + length tiles) (trace_lengths s)"
proof (induction tiles arbitrary: s)
  case Nil
  then show ?case by simp
next
  case (Cons kt tiles)
  from Cons.prems obtain s1 where
    1: "tile_step K src T tm pm kt s = Inr s1" and
    2: "kuiper_loop K src T tm pm tiles s1 = Inr s'"
    by (auto split: sum.splits)
  from Cons.IH [OF 2] tile_step_lengths [OF 1] show ?case by (simp add: comp_def)
qed

lemma kuiper_loop_from_init:
  assumes "kuiper_loop K src T tm pm tiles (kuiper_init ts0 T) = Inr s'"
  shows "trace_lengths s' = replicate 7 (length tiles)"
  using kuiper_loop_lengths [OF assms]
  by (simp add: trace_lengths_def kuiper_init_def numeral_eq_Suc)

text \<open>
  Before the first tile that contains the source, \<^verbatim>\<open>tile_detection_p_val\<close> is not
  bound: line 536 appends, line 537 raises.
\<close>

lemma trace_append_unbound:
  "tile_detection_p_val s = None \<Longrightarrow>
   trace_append T s = Inl (UnboundLocalError ''tile_detection_p_val'',
                           s\<lparr>tile_kuiper_p_val_trace := tile_kuiper_p_val_trace s @ [tile_p_val s]\<rparr>)"
  by (simp add: trace_append_def)

lemma kuiper_loop_first_tile_off_source:
  assumes "\<not> in_tile src (snd kt)"
  shows "kuiper_loop K src T tm pm (kt # tiles) (kuiper_init ts0 T)
         = Inl (UnboundLocalError ''tile_detection_p_val'',
                (kuiper_init ts0 T)\<lparr>tile_kuiper_p_val_trace := [1]\<rparr>)"
proof -
  have n: "tile_detection_p_val (kuiper_init ts0 T) = None"
    by (simp add: kuiper_init_def)
  have "trace_append T (kuiper_init ts0 T)
        = Inl (UnboundLocalError ''tile_detection_p_val'',
               (kuiper_init ts0 T)\<lparr>tile_kuiper_p_val_trace := [1]\<rparr>)"
    unfolding trace_append_unbound [OF n] by (simp add: kuiper_init_def)
  with assms have "tile_step K src T tm pm kt (kuiper_init ts0 T)
        = Inl (UnboundLocalError ''tile_detection_p_val'',
               (kuiper_init ts0 T)\<lparr>tile_kuiper_p_val_trace := [1]\<rparr>)"
    by (simp add: tile_step_def)
  then show ?thesis by simp
qed

text \<open>
  Claim C3: every trace receives one record per tile, and a tile that does not contain
  the source appends the last-known p-values. Lines 493--496 initialise
  \<^verbatim>\<open>exposure_kuiper\<close>, \<^verbatim>\<open>exposure_p_val\<close>, \<^verbatim>\<open>tile_p_val\<close> and \<^verbatim>\<open>n_photons\<close>, and
  leave out \<^verbatim>\<open>detection_p_val\<close> and \<^verbatim>\<open>tile_detection_p_val\<close>. On three tiles of
  which the first does not contain the source the loop stops at the first tile with
  \<^verbatim>\<open>UnboundLocalError\<close>, the first trace holding one record and the six others none.
\<close>

theorem kuiper_loop_carry_forward_unbound:
  "kuiper_loop K demo_source T_lat t_is_merger phi_is_merger
     [(0, demo_tile), (1, demo_tile), (2, demo_tile)] (kuiper_init ts0 T_lat)
   = Inl (UnboundLocalError ''tile_detection_p_val'',
          (kuiper_init ts0 T_lat)\<lparr>tile_kuiper_p_val_trace := [1]\<rparr>)
   \<and> trace_lengths ((kuiper_init ts0 T_lat)\<lparr>tile_kuiper_p_val_trace := [1]\<rparr>)
     = [1, 0, 0, 0, 0, 0, 0]"
proof -
  have "\<not> in_tile demo_source (snd (0::int, demo_tile))"
    by (simp add: in_tile_def demo_source_def demo_tile_def)
  from kuiper_loop_first_tile_off_source [OF this] show ?thesis
    by (simp add: trace_lengths_def kuiper_init_def)
qed

subsection \<open>The p-values\<close>

















subsection \<open>ComputeTesselation and ExistentialCrisis\<close>

lemma ebind_Inr: "(ebind m f = Inr y) = (\<exists>x. m = Inr x \<and> f x = Inr y)"
  by (cases m) (simp_all add: ebind_def)

lemma getitem_Inr: "(getitem d k = Inr v) = (d k = Some v)"
  by (simp add: getitem_def split: option.splits)

lemma ExistentialCrisis_self:
  "ExistentialCrisis E s None fs = Inr r \<Longrightarrow> fst r = s"
  by (auto simp: ExistentialCrisis_def ebind_def split: if_splits)

lemma reference_images_cfg:
  "reference_images E s fs = Inr s' \<Longrightarrow> k \<noteq> ''reference_images'' \<Longrightarrow>
   telescope_config_struct s' k = telescope_config_struct s k
   \<and> telescope_go_params s' = telescope_go_params s"
  by (auto simp: reference_images_def ebind_def split: option.splits sum.splits)

lemma tesselate_cfg:
  "tesselate E s fs = Inr r \<Longrightarrow> k \<noteq> ''tesselation'' \<Longrightarrow>
   telescope_config_struct (fst r) k = telescope_config_struct s k
   \<and> telescope_go_params (fst r) = telescope_go_params s"
  by (auto simp: tesselate_def ebind_def Let_def split: option.splits sum.splits if_splits)

lemma ComputeTesselation_cfg:
  assumes "ComputeTesselation E self fs = Inr r"
    and "k \<noteq> ''tesselation''" and "k \<noteq> ''reference_images''"
  obtains s1 where "single_exposure E self = Inr s1"
    and "telescope_config_struct (fst r) k = telescope_config_struct s1 k"
proof -
  from assms(1) obtain s1 r2 s3 where
    1: "single_exposure E self = Inr s1" and
    2: "tesselate E s1 fs = Inr r2" and
    3: "reference_images E (fst r2) (snd r2) = Inr s3" and
    4: "ExistentialCrisis E s3 None (snd r2) = Inr r"
    by (auto simp: ComputeTesselation_def ebind_def split: sum.splits)
  from ExistentialCrisis_self [OF 4] reference_images_cfg [OF 3 assms(3)]
    tesselate_cfg [OF 2 assms(2)]
  have "telescope_config_struct (fst r) k = telescope_config_struct s1 k" by simp
  with 1 show ?thesis by (rule that)
qed

lemma sqrt_100: "sqrt 100 = 10"
  by (rule real_sqrt_unique) simp_all

lemma demo_correction: "magnitude_correction 10000 100 = - 2.5"
  by (simp add: magnitude_correction_def sqrt_100)

lemma demo_requested:
  "requested_exposuretime (demo_env mpi) (telescope_go_params (demo_athena perm))
     (telescope_config_struct (demo_athena perm)) = Inr 100"
  by (simp add: requested_exposuretime_def demo_env_def demo_athena_def as_str_def ebind_def)

lemma demo_single_exposure:
  "single_exposure (demo_env mpi) (demo_athena perm)
   = Inr ((demo_athena perm)\<lparr>telescope_config_struct :=
            (telescope_config_struct (demo_athena perm))
              (''magnitude'' \<mapsto> VNum 17.5, ''exposuretime'' \<mapsto> VNum 100)\<rparr>)"
proof -
  have "single_exposure (demo_env mpi) (demo_athena perm)
   = Inr ((demo_athena perm)\<lparr>telescope_config_struct :=
            (telescope_config_struct (demo_athena perm))
              (''magnitude'' \<mapsto> VNum (20 + magnitude_correction 10000 100),
               ''exposuretime'' \<mapsto> VNum 100)\<rparr>)"
    unfolding single_exposure_def demo_requested
    by (simp add: demo_athena_def getitem_def as_num_def ebind_def)
  then show ?thesis by (simp add: demo_correction)
qed

lemma demo_ComputeTesselation:
  "\<exists>r. ComputeTesselation (demo_env mpi) (demo_athena perm) Map.empty = Inr r
       \<and> PermissionToWrite (fst r) = perm
       \<and> isfile (snd r) ''/home/u/SYNEX/Saved_Telescope_Dicts/Athena.dat''
       \<and> isfile (snd r) ''/home/u/SYNEX/gwemopt_tess_files/Athena.tess'' = perm"
  unfolding ComputeTesselation_def demo_single_exposure
  by (simp add: tesselate_def reference_images_def ExistentialCrisis_def demo_athena_def
      demo_env_def getitem_def ebind_def isfile_def Let_def)

text \<open>
  Claim C8. A call of \<^verbatim>\<open>ComputeTesselation\<close> that returns has the flag
  \<^verbatim>\<open>doSingleExposure\<close>. If the flag is true, the requested exposure time (the first of
  \<^verbatim>\<open>exposuretimes\<close>, or the stored one when that key is absent), the stored baseline
  exposure time and the stored magnitude are numbers, and on return the stored
  exposure time is the requested one and the stored magnitude is the old one plus
  \<open>-2.5 * log10 (sqrt (baseline / requested))\<close>, added once. If the flag is false, both
  entries are as before. (Floats are exact reals here.)
\<close>

theorem ComputeTesselation_single_exposure:
  assumes "ComputeTesselation E self fs = Inr r"
  shows "\<exists>flag. telescope_go_params self ''doSingleExposure'' = Some flag
     \<and> (if truthy flag then
          (\<exists>requested baseline magnitude.
             requested_exposuretime E (telescope_go_params self) (telescope_config_struct self)
               = Inr requested
             \<and> ebind (getitem (telescope_config_struct self) ''exposuretime'') as_num = Inr baseline
             \<and> ebind (getitem (telescope_config_struct self) ''magnitude'') as_num = Inr magnitude
             \<and> telescope_config_struct (fst r) ''exposuretime'' = Some (VNum requested)
             \<and> telescope_config_struct (fst r) ''magnitude''
                 = Some (VNum (magnitude + - 2.5 * log 10 (sqrt (baseline / requested)))))
        else
          telescope_config_struct (fst r) ''exposuretime''
            = telescope_config_struct self ''exposuretime''
          \<and> telescope_config_struct (fst r) ''magnitude''
            = telescope_config_struct self ''magnitude'')"
proof -
  obtain s1 where s1: "single_exposure E self = Inr s1"
    and e: "telescope_config_struct (fst r) ''exposuretime'' = telescope_config_struct s1 ''exposuretime''"
    using ComputeTesselation_cfg [OF assms, of "''exposuretime''"] by auto
  obtain s1' where s1': "single_exposure E self = Inr s1'"
    and m': "telescope_config_struct (fst r) ''magnitude'' = telescope_config_struct s1' ''magnitude''"
    using ComputeTesselation_cfg [OF assms, of "''magnitude''"] by auto
  from s1 s1' have "s1' = s1" by simp
  with m' have m: "telescope_config_struct (fst r) ''magnitude'' = telescope_config_struct s1 ''magnitude''"
    by simp
  from s1 obtain flag where f: "telescope_go_params self ''doSingleExposure'' = Some flag"
    and body: "(if truthy flag then
            ebind (requested_exposuretime E (telescope_go_params self) (telescope_config_struct self))
              (\<lambda>exposuretime.
                 ebind (ebind (getitem (telescope_config_struct self) ''exposuretime'') as_num)
                   (\<lambda>baseline.
                      if exposuretime = 0 then Inl ZeroDivisionError
                      else if baseline / exposuretime \<le> 0 then Inl NonFinite
                      else
                        ebind (ebind (getitem (telescope_config_struct self) ''magnitude'') as_num)
                          (\<lambda>magnitude.
                             Inr (self\<lparr>telescope_config_struct :=
                                    (telescope_config_struct self)
                                      (''magnitude'' \<mapsto>
                                         VNum (magnitude + magnitude_correction baseline exposuretime),
                                       ''exposuretime'' \<mapsto> VNum exposuretime)\<rparr>))))
          else Inr self) = Inr s1"
    unfolding single_exposure_def ebind_Inr [of "getitem _ ''doSingleExposure''"] getitem_Inr
    by blast
  show ?thesis
  proof (cases "truthy flag")
    case False
    with body have "s1 = self" by simp
    with e m f False show ?thesis by simp
  next
    case True
    with body obtain requested where
      r: "requested_exposuretime E (telescope_go_params self) (telescope_config_struct self) = Inr requested"
      and b1: "ebind (ebind (getitem (telescope_config_struct self) ''exposuretime'') as_num)
                   (\<lambda>baseline.
                      if requested = 0 then Inl ZeroDivisionError
                      else if baseline / requested \<le> 0 then Inl NonFinite
                      else
                        ebind (ebind (getitem (telescope_config_struct self) ''magnitude'') as_num)
                          (\<lambda>magnitude.
                             Inr (self\<lparr>telescope_config_struct :=
                                    (telescope_config_struct self)
                                      (''magnitude'' \<mapsto>
                                         VNum (magnitude + magnitude_correction baseline requested),
                                       ''exposuretime'' \<mapsto> VNum requested)\<rparr>))) = Inr s1"
      by (cases "requested_exposuretime E (telescope_go_params self) (telescope_config_struct self)")
         (simp_all add: ebind_def)
    from b1 obtain baseline where
      b: "ebind (getitem (telescope_config_struct self) ''exposuretime'') as_num = Inr baseline"
      and b2: "(if requested = 0 then Inl ZeroDivisionError
                else if baseline / requested \<le> 0 then Inl NonFinite
                else
                  ebind (ebind (getitem (telescope_config_struct self) ''magnitude'') as_num)
                    (\<lambda>magnitude.
                       Inr (self\<lparr>telescope_config_struct :=
                              (telescope_config_struct self)
                                (''magnitude'' \<mapsto>
                                   VNum (magnitude + magnitude_correction baseline requested),
                                 ''exposuretime'' \<mapsto> VNum requested)\<rparr>))) = Inr s1"
      by (cases "ebind (getitem (telescope_config_struct self) ''exposuretime'') as_num")
         (simp_all add: ebind_def)
    from b2 obtain magnitude where
      mg: "ebind (getitem (telescope_config_struct self) ''magnitude'') as_num = Inr magnitude"
      and s1_eq: "s1 = self\<lparr>telescope_config_struct :=
                  (telescope_config_struct self)
                    (''magnitude'' \<mapsto> VNum (magnitude + magnitude_correction baseline requested),
                     ''exposuretime'' \<mapsto> VNum requested)\<rparr>"
      by (cases "ebind (getitem (telescope_config_struct self) ''magnitude'') as_num")
         (auto simp: ebind_def split: if_splits)
    from e m f True r b mg s1_eq show ?thesis by (simp add: magnitude_correction_def)
  qed
qed

theorem ComputeTesselation_single_exposure_witness:
  "\<exists>r. ComputeTesselation (demo_env False) (demo_athena True) Map.empty = Inr r
       \<and> telescope_config_struct (fst r) ''exposuretime'' = Some (VNum 100)
       \<and> telescope_config_struct (fst r) ''magnitude'' = Some (VNum 17.5)"
proof -
  from demo_ComputeTesselation [of False True] obtain r where
    r: "ComputeTesselation (demo_env False) (demo_athena True) Map.empty = Inr r" by blast
  have c: "- 2.5 * log 10 (sqrt (10000 / 100)) = (- 2.5::real)" by (simp add: sqrt_100)
  from ComputeTesselation_single_exposure [OF r] demo_requested [of False True]
  have "telescope_config_struct (fst r) ''exposuretime'' = Some (VNum 100)
        \<and> telescope_config_struct (fst r) ''magnitude'' = Some (VNum 17.5)"
    by (auto simp: demo_athena_def getitem_def as_num_def ebind_def sqrt_100)
  with r show ?thesis by blast
qed

text \<open>The save file is written whatever the write permission is.\<close>

lemma ExistentialCrisis_writes:
  "ExistentialCrisis E self n fs = Inr r \<Longrightarrow> isfile (snd r) (ExistentialFileName (fst r))"
  by (auto simp: ExistentialCrisis_def ebind_def isfile_def split: sum.splits if_splits)

text \<open>A call of \<^verbatim>\<open>ComputeTesselation\<close> on an instrument without write permission
  leaves the tesselation file unwritten and writes the save file.\<close>

lemma ComputeTesselation_writes_without_permission:
  "\<exists>r. ComputeTesselation (demo_env True) (demo_athena False) Map.empty = Inr r
       \<and> PermissionToWrite (fst r) = False
       \<and> isfile (snd r) ''/home/u/SYNEX/Saved_Telescope_Dicts/Athena.dat''
       \<and> isfile (snd r) ''/home/u/SYNEX/gwemopt_tess_files/Athena.tess'' = False"
  by (rule demo_ComputeTesselation)

subsection \<open>Construction\<close>

text \<open>No step after line 294 touches the coverage or the tile structure.\<close>

lemma single_exposure_frame:
  "single_exposure E s = Inr s' \<Longrightarrow>
   telescope_source_coverage s' = telescope_source_coverage s
   \<and> telescope_tile_struct s' = telescope_tile_struct s"
  by (auto simp: single_exposure_def ebind_Inr split: if_splits)

lemma tesselate_frame:
  "tesselate E s fs = Inr r \<Longrightarrow>
   telescope_source_coverage (fst r) = telescope_source_coverage s
   \<and> telescope_tile_struct (fst r) = telescope_tile_struct s"
  by (auto simp: tesselate_def ebind_Inr Let_def split: if_splits option.splits)

lemma reference_images_frame:
  "reference_images E s fs = Inr s' \<Longrightarrow>
   telescope_source_coverage s' = telescope_source_coverage s
   \<and> telescope_tile_struct s' = telescope_tile_struct s"
  by (auto simp: reference_images_def ebind_Inr split: option.splits)

lemma ComputeTesselation_frame:
  assumes "ComputeTesselation E s fs = Inr r"
  shows "telescope_source_coverage (fst r) = telescope_source_coverage s
       \<and> telescope_tile_struct (fst r) = telescope_tile_struct s"
proof -
  from assms obtain s1 r2 s3 where
    1: "single_exposure E s = Inr s1" and
    2: "tesselate E s1 fs = Inr r2" and
    3: "reference_images E (fst r2) (snd r2) = Inr s3" and
    4: "ExistentialCrisis E s3 None (snd r2) = Inr r"
    by (auto simp: ComputeTesselation_def ebind_Inr)
  from single_exposure_frame [OF 1] tesselate_frame [OF 2] reference_images_frame [OF 3]
    ExistentialCrisis_self [OF 4]
  show ?thesis by simp
qed

lemma init_finish_cached:
  assumes "init_finish E fs L go cfg = Inr r"
  shows "telescope_source_coverage (fst r) = (if l_MUTATED L then None else l_source_coverage L)
       \<and> telescope_tile_struct (fst r) = (if l_MUTATED L then None else l_tile_struct L)"
proof -
  from assms obtain efn0 efn r1 where
    c: "ComputeTesselation E
          \<lparr>verbose = l_verbose L,
           PermissionToWrite = (\<not> use_mpi E),
           ExistentialFileName = efn,
           MutatedFromTelescopeFile =
             (if l_MUTATED L then Some (Some efn0) else l_MutatedFromTelescopeFile L),
           telescope_go_params = go,
           telescope_config_struct = cfg,
           telescope_source_coverage = (if l_MUTATED L then None else l_source_coverage L),
           telescope_tile_struct = (if l_MUTATED L then None else l_tile_struct L),
           ARF_file_loc_name = None\<rparr> fs = Inr r1"
    and r: "r = ((fst r1)\<lparr>ARF_file_loc_name :=
                   Some (SYNEX_PATH E @ ''/XIFU_CC_BASELINECONF_2018_10_10.arf'')\<rparr>, snd r1)"
    unfolding init_finish_def ebind_Inr by auto
  from ComputeTesselation_frame [OF c] r show ?thesis by simp
qed

lemma init_from_cached:
  assumes "init_from E fs L = Inr r"
  shows "telescope_source_coverage (fst r) = (if l_MUTATED L then None else l_source_coverage L)
       \<and> telescope_tile_struct (fst r) = (if l_MUTATED L then None else l_tile_struct L)"
proof -
  from assms obtain paths :: "dict \<times> dict \<times> bool" and orb where
    "init_finish E (snd orb) L (fst paths) (fst orb) = Inr r"
    unfolding init_from_def ebind_Inr by auto
  then show ?thesis by (rule init_finish_cached)
qed

lemma resurrect_loaded:
  assumes "resurrect E fs efn S kw vb = Inr L"
  shows "decide_mutation (snap_go_params S) (snap_config_struct S) kw = Inr (l_MUTATED L)
       \<and> l_source_coverage L = snapshot_coverage E fs efn S
       \<and> l_tile_struct L = snapshot_tile_struct S"
  using assms unfolding resurrect_def ebind_Inr by (auto simp: Let_def)

lemma demo_load:
  "resurrect (demo_env False) demo_fs ''/home/u/SYNEX/Saved_Telescope_Dicts/Athena.dat''
     demo_snapshot [] (VBool False)
   = Inr \<lparr>l_ExistentialFileName = Some ''/home/u/SYNEX/Saved_Telescope_Dicts/Athena.dat'',
          l_MutatedFromTelescopeFile = Some None,
          l_go_params = snap_go_params demo_snapshot,
          l_config_struct = snap_config_struct demo_snapshot,
          l_source_coverage = Some demo_coverage,
          l_tile_struct = Some (VObj 5),
          l_MUTATED = False,
          l_kwargs = [],
          l_verbose = VBool False\<rparr>"
  by (simp add: resurrect_def decide_mutation_def kw_in_def ebind_def snapshot_coverage_def
      snapshot_tile_struct_def load_coverage_def relocate_ref_def recover_ref_def
      demo_snapshot_def demo_coverage_def)

lemma demo_paths:
  "init_paths (demo_env False) demo_fs
     \<lparr>l_ExistentialFileName = Some ''/home/u/SYNEX/Saved_Telescope_Dicts/Athena.dat'',
      l_MutatedFromTelescopeFile = Some None,
      l_go_params = snap_go_params demo_snapshot,
      l_config_struct = snap_config_struct demo_snapshot,
      l_source_coverage = Some demo_coverage,
      l_tile_struct = Some (VObj 5),
      l_MUTATED = False,
      l_kwargs = [],
      l_verbose = VBool False\<rparr>
   = Inr (snap_go_params demo_snapshot, snap_config_struct demo_snapshot, False)"
  by (simp add: init_paths_def default_tesselationFile_def retarget_def default_orbitFile_def
      getitem_def ebind_def demo_snapshot_def demo_env_def)

lemma demo_dirname:
  "dirname ''/home/u/SYNEX/orbit_files/Athena_orbit.dat'' = ''/home/u/SYNEX/orbit_files''"
  "dirname ''/home/u/SYNEX/Saved_Telescope_Dicts/Athena.dat'' = ''/home/u/SYNEX/Saved_Telescope_Dicts''"
  by (simp_all add: dirname_def)

lemma demo_orbit:
  "init_orbit (demo_env False) demo_fs True False (snap_config_struct demo_snapshot)
   = Inr ((snap_config_struct demo_snapshot)(''orbit_dict'' \<mapsto> VObj 0),
          demo_fs(''/home/u/SYNEX/orbit_files/Athena_orbit.dat'' \<mapsto> OtherFile))"
  by (simp add: init_orbit_def getitem_def ebind_def path_operand_def mkdir_p_def isfile_def
      demo_snapshot_def demo_env_def demo_fs_def Let_def)

lemma demo_finish:
  "\<exists>r. init_finish (demo_env False)
          (demo_fs(''/home/u/SYNEX/orbit_files/Athena_orbit.dat'' \<mapsto> OtherFile)) demo_loaded
          (snap_go_params demo_snapshot)
          ((snap_config_struct demo_snapshot)(''orbit_dict'' \<mapsto> VObj 0)) = Inr r"
  by (simp add: init_finish_def default_ExistentialFileName_def mutated_ExistentialFileName_def
      demo_loaded_def demo_dirname mkdir_p_def ComputeTesselation_def single_exposure_def
      tesselate_def reference_images_def ExistentialCrisis_def getitem_def ebind_def Let_def
      demo_snapshot_def demo_env_def)

lemma demo_use_mpi: "use_mpi (demo_env mpi) = mpi"
  by (simp add: demo_env_def)

lemma demo_init_from: "\<exists>r. init_from (demo_env False) demo_fs demo_loaded = Inr r"
proof -
  have p: "init_paths (demo_env False) demo_fs demo_loaded
           = Inr (snap_go_params demo_snapshot, snap_config_struct demo_snapshot, False)"
    unfolding demo_loaded_def by (rule demo_paths)
  have m: "l_MUTATED demo_loaded = False" by (simp add: demo_loaded_def)
  show ?thesis
    unfolding init_from_def p m demo_use_mpi
    using demo_finish by (simp add: ebind_def demo_orbit)
qed

text \<open>
  The construction under the overlay \<open>demo_overlay\<close>: the decision is \<^verbatim>\<open>MUTATED = True\<close>,
  neither cached file is on disk so both names are kept, the orbit is saved, and the save
  file gets the next free version, \<^verbatim>\<open>Athena_1.dat\<close>.
\<close>

lemma demo_backfill:
  "backfill (go_params_default (demo_env False)) (config_struct_default (demo_env False))
     (snap_go_params demo_snapshot) (snap_config_struct demo_snapshot) demo_overlay
   = (snap_go_params demo_snapshot, snap_config_struct demo_snapshot)"
  by (auto simp: demo_overlay_def backfill1_def demo_env_def demo_snapshot_def fun_eq_iff)

lemma demo_decide:
  "decide_mutation (snap_go_params demo_snapshot) (snap_config_struct demo_snapshot) demo_overlay
   = Inr True"
  by (simp add: decide_mutation_def kw_in_def demo_overlay_def demo_snapshot_def array_equal_def)

lemma demo_load_mutated:
  "resurrect (demo_env False) demo_fs ''/home/u/SYNEX/Saved_Telescope_Dicts/Athena.dat''
     demo_snapshot demo_overlay (VBool False) = Inr demo_mutated"
  unfolding resurrect_def demo_decide demo_backfill
  by (simp add: ebind_def demo_mutated_def snapshot_coverage_def
      snapshot_tile_struct_def load_coverage_def relocate_ref_def recover_ref_def
      demo_snapshot_def demo_coverage_def)

lemma demo_merge_mutated:
  "merge_kwargs (snap_go_params demo_snapshot) (snap_config_struct demo_snapshot) False demo_overlay
   = (demo_go_mutated, snap_config_struct demo_snapshot, False)"
  by (simp add: demo_overlay_def demo_go_mutated_def demo_snapshot_def)

lemma demo_paths_mutated:
  "init_paths (demo_env False) demo_fs demo_mutated
   = Inr (demo_go_mutated, snap_config_struct demo_snapshot, False)"
proof -
  have k: "l_go_params demo_mutated = snap_go_params demo_snapshot"
    "l_config_struct demo_mutated = snap_config_struct demo_snapshot"
    "l_kwargs demo_mutated = demo_overlay" "l_MUTATED demo_mutated = True"
    by (simp_all add: demo_mutated_def)
  show ?thesis
    unfolding init_paths_def k demo_merge_mutated Let_def
    by (simp add: default_tesselationFile_def retarget_def demo_overlay_def
        default_orbitFile_def getitem_def ebind_def path_operand_def isfile_def demo_fs_def
        demo_snapshot_def demo_env_def)
qed

lemma demo_orbit_mutated:
  "init_orbit (demo_env False) demo_fs True True (snap_config_struct demo_snapshot)
   = Inr ((snap_config_struct demo_snapshot)(''orbit_dict'' \<mapsto> VObj 0),
          demo_fs(''/home/u/SYNEX/orbit_files/Athena_orbit.dat'' \<mapsto> OtherFile))"
  by (simp add: init_orbit_def getitem_def ebind_def path_operand_def mkdir_p_def isfile_def
      demo_snapshot_def demo_env_def demo_fs_def Let_def)

lemma demo_version:
  "version_path (demo_fs(''/home/u/SYNEX/orbit_files/Athena_orbit.dat'' \<mapsto> OtherFile))
     ''/home/u/SYNEX/Saved_Telescope_Dicts/Athena.dat''
   = Some ''/home/u/SYNEX/Saved_Telescope_Dicts/Athena_1.dat''"
proof -
  have s: "version_start ''/home/u/SYNEX/Saved_Telescope_Dicts/Athena.dat''
           = (1, ''/home/u/SYNEX/Saved_Telescope_Dicts/Athena_1.dat'')"
    by (simp add: version_start_def py_int_def py_strip_def py_isspace_def is_digit_def)
  have "version_probe (demo_fs(''/home/u/SYNEX/orbit_files/Athena_orbit.dat'' \<mapsto> OtherFile)) 1
          ''/home/u/SYNEX/Saved_Telescope_Dicts/Athena_1.dat''
        = Some ''/home/u/SYNEX/Saved_Telescope_Dicts/Athena_1.dat''"
    by (subst version_probe.simps) (simp add: isfile_def demo_fs_def)
  with s show ?thesis by (simp add: version_path_def)
qed

lemma demo_dirname_1:
  "dirname ''/home/u/SYNEX/Saved_Telescope_Dicts/Athena_1.dat'' = ''/home/u/SYNEX/Saved_Telescope_Dicts''"
  by (simp add: dirname_def)

lemma demo_finish_mutated:
  "\<exists>r. init_finish (demo_env False)
          (demo_fs(''/home/u/SYNEX/orbit_files/Athena_orbit.dat'' \<mapsto> OtherFile)) demo_mutated
          demo_go_mutated
          ((snap_config_struct demo_snapshot)(''orbit_dict'' \<mapsto> VObj 0)) = Inr r
       \<and> ExistentialFileName (fst r) = ''/home/u/SYNEX/Saved_Telescope_Dicts/Athena_1.dat''"
proof -
  have e: "default_ExistentialFileName (demo_env False) demo_mutated
             ((snap_config_struct demo_snapshot)(''orbit_dict'' \<mapsto> VObj 0))
           = Inr ''/home/u/SYNEX/Saved_Telescope_Dicts/Athena.dat''"
    by (simp add: default_ExistentialFileName_def demo_mutated_def)
  have m: "mutated_ExistentialFileName
             (demo_fs(''/home/u/SYNEX/orbit_files/Athena_orbit.dat'' \<mapsto> OtherFile)) demo_mutated
             ''/home/u/SYNEX/Saved_Telescope_Dicts/Athena.dat''
           = Inr ''/home/u/SYNEX/Saved_Telescope_Dicts/Athena_1.dat''"
    by (simp add: mutated_ExistentialFileName_def demo_mutated_def demo_overlay_def demo_version)
  show ?thesis
    unfolding init_finish_def e
    by (simp add: ebind_def m demo_dirname_1 mkdir_p_def ComputeTesselation_def
        single_exposure_def tesselate_def reference_images_def ExistentialCrisis_def getitem_def
        Let_def demo_go_mutated_def demo_snapshot_def demo_env_def)
qed

lemma demo_init_from_mutated:
  "\<exists>r. init_from (demo_env False) demo_fs demo_mutated = Inr r
       \<and> ExistentialFileName (fst r) = ''/home/u/SYNEX/Saved_Telescope_Dicts/Athena_1.dat''"
proof -
  have m: "l_MUTATED demo_mutated = True" by (simp add: demo_mutated_def)
  show ?thesis
    unfolding init_from_def demo_paths_mutated m demo_use_mpi
    using demo_finish_mutated by (simp add: ebind_def demo_orbit_mutated)
qed

text \<open>
  Claim C6. When a snapshot is resurrected and the construction returns, the value of
  \<^verbatim>\<open>MUTATED\<close> is the mutation decision on the snapshot and the overlay; if it is true
  the instrument's source coverage and tile structure are both \<^verbatim>\<open>None\<close>, whatever
  the snapshot holds; if it is false they are the snapshot's (the coverage with its
  three file references re-rooted by lines 120--135, absent keys read as \<^verbatim>\<open>None\<close>).
\<close>

theorem resurrect_voids_cached:
  assumes "resurrect E fs efn S kw vb = Inr L" and "init_from E fs L = Inr r"
  shows "decide_mutation (snap_go_params S) (snap_config_struct S) kw = Inr (l_MUTATED L)
       \<and> (if l_MUTATED L
          then telescope_source_coverage (fst r) = None \<and> telescope_tile_struct (fst r) = None
          else telescope_source_coverage (fst r) = snapshot_coverage E fs efn S
             \<and> telescope_tile_struct (fst r) = snapshot_tile_struct S)"
  using resurrect_loaded [OF assms(1)] init_from_cached [OF assms(2)] by simp

theorem resurrect_voids_cached_witness:
  "(\<exists>r. init_from (demo_env False) demo_fs demo_loaded = Inr r
        \<and> telescope_source_coverage (fst r) = Some demo_coverage
        \<and> telescope_tile_struct (fst r) = Some (VObj 5))
   \<and> (\<exists>r. resurrect (demo_env False) demo_fs ''/home/u/SYNEX/Saved_Telescope_Dicts/Athena.dat''
             demo_snapshot [(''Tobs'', VArr [0, 2]), (''tilesType'', VStr ''moc'')] (VBool False)
           = Inr demo_mutated
        \<and> l_MUTATED demo_mutated
        \<and> snap_source_coverage demo_snapshot = Some (Some demo_coverage)
        \<and> snap_tile_struct demo_snapshot = Some (Some (VObj 5))
        \<and> init_from (demo_env False) demo_fs demo_mutated = Inr r
        \<and> telescope_source_coverage (fst r) = None
        \<and> telescope_tile_struct (fst r) = None)"
proof (intro conjI)
  from demo_init_from obtain r where r: "init_from (demo_env False) demo_fs demo_loaded = Inr r"
    by blast
  have l: "resurrect (demo_env False) demo_fs ''/home/u/SYNEX/Saved_Telescope_Dicts/Athena.dat''
             demo_snapshot [] (VBool False) = Inr demo_loaded"
    by (simp add: demo_load demo_loaded_def)
  have c: "snapshot_coverage (demo_env False) demo_fs
             ''/home/u/SYNEX/Saved_Telescope_Dicts/Athena.dat'' demo_snapshot = Some demo_coverage"
    by (simp add: snapshot_coverage_def load_coverage_def relocate_ref_def recover_ref_def
        demo_snapshot_def demo_coverage_def)
  have t: "snapshot_tile_struct demo_snapshot = Some (VObj 5)"
    by (simp add: snapshot_tile_struct_def demo_snapshot_def)
  have m: "\<not> l_MUTATED demo_loaded" by (simp add: demo_loaded_def)
  from resurrect_voids_cached [OF l r] m c t r
  show "\<exists>r. init_from (demo_env False) demo_fs demo_loaded = Inr r
        \<and> telescope_source_coverage (fst r) = Some demo_coverage
        \<and> telescope_tile_struct (fst r) = Some (VObj 5)" by auto
next
  from demo_init_from_mutated obtain r where
    r: "init_from (demo_env False) demo_fs demo_mutated = Inr r" by blast
  have l: "resurrect (demo_env False) demo_fs ''/home/u/SYNEX/Saved_Telescope_Dicts/Athena.dat''
             demo_snapshot [(''Tobs'', VArr [0, 2]), (''tilesType'', VStr ''moc'')] (VBool False)
           = Inr demo_mutated"
    using demo_load_mutated by (simp add: demo_overlay_def)
  have m: "l_MUTATED demo_mutated" by (simp add: demo_mutated_def)
  have s: "snap_source_coverage demo_snapshot = Some (Some demo_coverage)"
    "snap_tile_struct demo_snapshot = Some (Some (VObj 5))"
    by (simp_all add: demo_snapshot_def)
  from resurrect_voids_cached [OF l r] m
  have "telescope_source_coverage (fst r) = None \<and> telescope_tile_struct (fst r) = None"
    by simp
  with l m s r
  show "\<exists>r. resurrect (demo_env False) demo_fs ''/home/u/SYNEX/Saved_Telescope_Dicts/Athena.dat''
             demo_snapshot [(''Tobs'', VArr [0, 2]), (''tilesType'', VStr ''moc'')] (VBool False)
           = Inr demo_mutated
        \<and> l_MUTATED demo_mutated
        \<and> snap_source_coverage demo_snapshot = Some (Some demo_coverage)
        \<and> snap_tile_struct demo_snapshot = Some (Some (VObj 5))
        \<and> init_from (demo_env False) demo_fs demo_mutated = Inr r
        \<and> telescope_source_coverage (fst r) = None
        \<and> telescope_tile_struct (fst r) = None" by blast
qed

subsection \<open>Construction without write permission\<close>

lemma mpi_load: "init_load (demo_env True) Map.empty [] = Inr (fresh (demo_env True) None [] (VBool True))"
  by (simp add: init_load_def fix_NewExistentialFileName_def kw_del_def ebind_def)

lemma mpi_paths:
  "init_paths (demo_env True) Map.empty (fresh (demo_env True) None [] (VBool True))
   = Inr (go_params_default (demo_env True), mpi_cfg, False)"
  by (simp add: init_paths_def fresh_def default_tesselationFile_def retarget_def
      default_orbitFile_def getitem_def ebind_def path_operand_def mkdir_p_def mpi_cfg_def
      demo_env_def)

lemma mpi_orbit:
  "init_orbit (demo_env True) Map.empty False False mpi_cfg
   = Inr (mpi_cfg(''orbit_dict'' \<mapsto> VObj 0), Map.empty)"
  by (simp add: init_orbit_def getitem_def ebind_def path_operand_def mkdir_p_def mpi_cfg_def
      demo_env_def Let_def)

lemma mpi_efn:
  "default_ExistentialFileName (demo_env True) (fresh (demo_env True) None [] (VBool True))
     (mpi_cfg(''orbit_dict'' \<mapsto> VObj 0)) = Inr ''/home/u/SYNEX/Saved_Telescope_Dicts/Athena.dat''"
  by (simp add: default_ExistentialFileName_def fresh_def getitem_def ebind_def as_str_def
      with_ext_def mpi_cfg_def demo_env_def)

lemma mpi_finish:
  "\<exists>r. init_finish (demo_env True) Map.empty (fresh (demo_env True) None [] (VBool True))
          (go_params_default (demo_env True)) (mpi_cfg(''orbit_dict'' \<mapsto> VObj 0)) = Inr r
       \<and> PermissionToWrite (fst r) = False
       \<and> ExistentialFileName (fst r) = ''/home/u/SYNEX/Saved_Telescope_Dicts/Athena.dat''
       \<and> isfile (snd r) ''/home/u/SYNEX/Saved_Telescope_Dicts/Athena.dat''
       \<and> \<not> isfile (snd r) ''/home/u/SYNEX/gwemopt_tess_files/Athena.tess''
       \<and> \<not> isfile (snd r) ''/home/u/SYNEX/orbit_files/Athena_orbit.dat''"
  unfolding init_finish_def mpi_efn
  by (simp add: mutated_ExistentialFileName_def fresh_def dirname_def mkdir_p_def
      ComputeTesselation_def single_exposure_def tesselate_def reference_images_def
      ExistentialCrisis_def getitem_def ebind_def Let_def isfile_def mpi_cfg_def demo_env_def)

text \<open>
  Claim C2: without write permission no stage writes to disk. The orbit stage passes
  \<^verbatim>\<open>SAVETOFILE=False\<close> (lines 266--267) and the tesselation stage passes
  \<^verbatim>\<open>WriteToFile=self.PermissionToWrite\<close> (lines 355 and 357), but
  \<^verbatim>\<open>ExistentialCrisis\<close>, which \<^verbatim>\<open>ComputeTesselation\<close> calls on line 379, opens and pickles
  the save file without reading the permission. Constructing \<^verbatim>\<open>Athena()\<close> with no argument on an
  empty disk, in a process of an MPI run of several processes and with collaborators
  that honour their flags, leaves the orbit file and the tesselation file unwritten and
  writes the save file.
\<close>

theorem init_writes_without_permission:
  "\<exists>r. init (demo_env True) Map.empty [] = Inr r
       \<and> PermissionToWrite (fst r) = False
       \<and> ExistentialFileName (fst r) = ''/home/u/SYNEX/Saved_Telescope_Dicts/Athena.dat''
       \<and> isfile (snd r) ''/home/u/SYNEX/Saved_Telescope_Dicts/Athena.dat''
       \<and> \<not> isfile (snd r) ''/home/u/SYNEX/gwemopt_tess_files/Athena.tess''
       \<and> \<not> isfile (snd r) ''/home/u/SYNEX/orbit_files/Athena_orbit.dat''"
proof -
  have m: "l_MUTATED (fresh (demo_env True) None [] (VBool True)) = False"
    by (simp add: fresh_def)
  have u: "use_mpi (demo_env True) = True" by (simp add: demo_env_def)
  show ?thesis
    unfolding init_def mpi_load
    using mpi_finish
    by (simp add: ebind_def init_from_def mpi_paths m u mpi_orbit)
qed

text \<open>
  The consequence in \<^verbatim>\<open>__init__\<close>: resurrecting the save file under the one-key
  overlay \<^verbatim>\<open>Tobs = [0, 2]\<close> leaves \<^verbatim>\<open>MUTATED\<close> false and keeps the saved coverage,
  while the merge overwrites the saved \<^verbatim>\<open>Tobs = [0, 1]\<close>.
\<close>

lemma resurrect_single_key_keeps_coverage:
  "\<exists>L. resurrect (demo_env False) demo_fs ''/home/u/SYNEX/Saved_Telescope_Dicts/Athena.dat''
          demo_snapshot [(''Tobs'', VArr [0, 2])] (VBool False) = Inr L
       \<and> l_MUTATED L = False
       \<and> l_source_coverage L = Some demo_coverage
       \<and> fst (merge_kwargs (l_go_params L) (l_config_struct L) False (l_kwargs L)) ''Tobs''
           = Some (VArr [0, 2])
       \<and> snap_go_params demo_snapshot ''Tobs'' = Some (VArr [0, 1])"
  by (simp add: resurrect_def decide_mutation_def kw_in_def ebind_def snapshot_coverage_def
      snapshot_tile_struct_def load_coverage_def relocate_ref_def recover_ref_def backfill1_def
      demo_snapshot_def demo_coverage_def demo_env_def)

end
